theory Spec2Isabelle
  imports Main "HOL-Library.Word" "HOL-Library.Sublist"
begin

unbundle bit_operations_syntax

section \<open>Strings and big integers of the host language\<close>

text \<open>
  The page is TypeScript. Its \<open>bigint\<close> values are unbounded integers (\<open>int\<close>); its strings
  are modelled as \<open>string\<close>, a character standing for one code unit below 256.
\<close>

definition isWhiteSpace :: "char \<Rightarrow> bool" where
  "isWhiteSpace c = (of_char c \<in> {9, 10, 11, 12, 13, 32, 160 :: nat})"

definition trim :: "string \<Rightarrow> string" where
  "trim s = rev (dropWhile isWhiteSpace (rev (dropWhile isWhiteSpace s)))"

text \<open>Value of a digit character, for any radix up to 36.\<close>

definition digitVal :: "char \<Rightarrow> nat option" where
  "digitVal c =
     (let n = (of_char c :: nat) in
      if 48 \<le> n \<and> n \<le> 57 then Some (n - 48)
      else if 97 \<le> n \<and> n \<le> 122 then Some (n - 87)
      else if 65 \<le> n \<and> n \<le> 90 then Some (n - 55)
      else None)"

definition digitChar :: "nat \<Rightarrow> char" where
  "digitChar d = char_of (if d < 10 then 48 + d else 87 + d)"

fun parseRadix :: "nat \<Rightarrow> nat \<Rightarrow> string \<Rightarrow> nat option" where
  "parseRadix r acc [] = Some acc"
| "parseRadix r acc (c # cs) =
     (case digitVal c of
        None \<Rightarrow> None
      | Some d \<Rightarrow> if d < r then parseRadix r (acc * r + d) cs else None)"

definition parseDigits :: "nat \<Rightarrow> string \<Rightarrow> nat option" where
  "parseDigits r ds = (if ds = [] then None else parseRadix r 0 ds)"

definition signedDecimal :: "string \<Rightarrow> int option" where
  "signedDecimal t =
     (case t of
        [] \<Rightarrow> None
      | c # ds \<Rightarrow>
          if c = CHR ''+'' then map_option int (parseDigits 10 ds)
          else if c = CHR ''-'' then map_option (\<lambda>n. - int n) (parseDigits 10 ds)
          else map_option int (parseDigits 10 t))"

text \<open>
  \<open>BigInt(s)\<close> for a string \<open>s\<close>: surrounding white space is dropped, the empty text is
  \<open>0n\<close>, an unsigned literal may carry a \<open>0x\<close>, \<open>0o\<close> or \<open>0b\<close> prefix, a decimal literal
  may carry a sign. \<open>None\<close> is the \<open>SyntaxError\<close> that \<open>BigInt\<close> throws.
\<close>

definition BigInt :: "string \<Rightarrow> int option" where
  "BigInt s =
     (let t = trim s in
      if t = [] then Some 0
      else case t of
        c0 # c1 # rest \<Rightarrow>
          if c0 = CHR ''0'' \<and> (c1 = CHR ''x'' \<or> c1 = CHR ''X'') then map_option int (parseDigits 16 rest)
          else if c0 = CHR ''0'' \<and> (c1 = CHR ''o'' \<or> c1 = CHR ''O'') then map_option int (parseDigits 8 rest)
          else if c0 = CHR ''0'' \<and> (c1 = CHR ''b'' \<or> c1 = CHR ''B'') then map_option int (parseDigits 2 rest)
          else signedDecimal t
      | _ \<Rightarrow> signedDecimal t)"

function digitsRadix :: "nat \<Rightarrow> nat \<Rightarrow> string" where
  "digitsRadix r n =
     (if r < 2 \<or> n < r then [digitChar n]
      else digitsRadix r (n div r) @ [digitChar (n mod r)])"
  by pat_completeness auto
termination
  by (relation "measure snd") auto

declare digitsRadix.simps [simp del]

text \<open>\<open>big.toString(r)\<close> of a \<open>bigint\<close>.\<close>

definition bigintToString :: "nat \<Rightarrow> int \<Rightarrow> string" where
  "bigintToString r i =
     (if i < 0 then CHR ''-'' # digitsRadix r (nat (- i)) else digitsRadix r (nat i))"

text \<open>\<open>s.padStart(n, c)\<close> for a one-character filler.\<close>

definition padStart :: "nat \<Rightarrow> char \<Rightarrow> string \<Rightarrow> string" where
  "padStart n c s = replicate (n - length s) c @ s"

text \<open>\<open>s.replace(pat, rep)\<close> for a string pattern: the first occurrence only.\<close>

fun replaceFirst :: "string \<Rightarrow> string \<Rightarrow> string \<Rightarrow> string" where
  "replaceFirst pat rep [] = (if pat = [] then rep else [])"
| "replaceFirst pat rep (c # cs) =
     (if prefix pat (c # cs) then rep @ drop (length pat) (c # cs)
      else c # replaceFirst pat rep cs)"

definition toLowerChar :: "char \<Rightarrow> char" where
  "toLowerChar c =
     (let n = (of_char c :: nat) in
      if (65 \<le> n \<and> n \<le> 90) \<or> (192 \<le> n \<and> n \<le> 222 \<and> n \<noteq> 215) then char_of (n + 32) else c)"

definition toLowerCase :: "string \<Rightarrow> string" where
  "toLowerCase s = map toLowerChar s"

section \<open>Address helpers (page.tsx, module level)\<close>

text \<open>
  \<open>toHexAddress(addr)\<close>: a falsy argument gives \<open>0x0\<close>; otherwise the value is read by
  \<open>BigInt\<close> and printed in base 16, left-padded to 64 digits; when \<open>BigInt\<close> throws, the
  argument comes back unchanged. An absent value (\<open>undefined\<close>, \<open>null\<close>) is \<open>None\<close>.
\<close>

definition toHexAddress :: "string \<Rightarrow> string" where
  "toHexAddress addr =
     (if addr = [] then ''0x0''
      else case BigInt addr of
        Some big \<Rightarrow> ''0x'' @ padStart 64 (CHR ''0'') (bigintToString 16 big)
      | None \<Rightarrow> addr)"

definition toHexAddressOpt :: "string option \<Rightarrow> string" where
  "toHexAddressOpt a = (case a of None \<Rightarrow> ''0x0'' | Some s \<Rightarrow> toHexAddress s)"

definition normalizeAddress :: "string \<Rightarrow> string" where
  "normalizeAddress addr =
     (if addr = [] then []
      else let hex = dropWhile (\<lambda>c. c = CHR ''0'') (replaceFirst ''0x'' [] addr)
           in ''0x'' @ (if hex = [] then ''0'' else hex))"

definition normalizeAddressOpt :: "string option \<Rightarrow> string" where
  "normalizeAddressOpt a = (case a of None \<Rightarrow> [] | Some s \<Rightarrow> normalizeAddress s)"

section \<open>Splitting a 256-bit value\<close>

record u256_parts =
  low :: int
  high :: int

definition splitU256 :: "int \<Rightarrow> u256_parts" where
  "splitU256 v =
     (let mask = push_bit 128 1 - 1;
          lo = v AND mask;
          hi = drop_bit 128 v
      in \<lparr>low = lo, high = hi\<rparr>)"

section \<open>The commitment codec (page.tsx, inside the component)\<close>

text \<open>
  A thrown exception is the left summand, carrying the message. The Poseidon hash is the
  library function \<open>poseidonHashMany\<close> of micro-starknet; it is a parameter \<open>H\<close> here.
\<close>

type_synonym 'a throws = "string + 'a"

definition computeCommitment ::
  "(int list \<Rightarrow> int) \<Rightarrow> int \<Rightarrow> int \<Rightarrow> int \<Rightarrow> string \<Rightarrow> string throws" where
  "computeCommitment H secret amt lot_id winner =
     (case BigInt winner of
        None \<Rightarrow> Inl ''SyntaxError''
      | Some winnerBigInt \<Rightarrow>
          let amountLow = low (splitU256 amt);
              lotIdLow = low (splitU256 lot_id);
              hash = H [secret, amountLow, lotIdLow, winnerBigInt]
          in Inr (bigintToString 10 hash))"

section \<open>The page state\<close>

text \<open>
  A lot as the page keeps it after \<open>fetchAllLots\<close>: times are numbers of seconds (integers
  here), amounts and addresses are strings. The fetched metadata object and the winner record
  are left out; no handler below reads them.
\<close>

record lot =
  lotId :: int
  productor :: string
  raza :: string
  peso_inicial :: string
  cantidad_animales :: string
  metadata_uri :: string
  start_time :: int
  duration :: int
  finalizado :: bool
  mejor_puja :: string
  mejor_postor :: string
  paymentDone :: bool

text \<open>The \<open>Bid\<close> interface; the fields are \<open>secret\<close>, \<open>amount\<close>, \<open>lot_id\<close>, \<open>winner\<close>, \<open>commitment\<close>.\<close>

record bid =
  bid_secret :: string
  bid_amount :: string
  bid_lot_id :: string
  bid_winner :: string
  bid_commitment :: string

text \<open>
  \<open>localStorage\<close> maps keys to JSON texts. The page writes three shapes: one bid, a list of
  bids, and a plain transaction hash.
\<close>

datatype stored = JBid bid | JBids "bid list" | Text string

datatype toast = ToastError string | ToastSuccess string | ToastLoading string | ToastDismiss

record call =
  entrypoint :: string
  calldata :: "string list"

text \<open>A POST to the proof backend: the URL and the bids in the body.\<close>

datatype request = Post string "bid list"

record receipt =
  execution_status :: string
  revert_reason :: string

datatype backend = FetchFailed string | NotOk string string | Calldata "string list"

record fetched =
  fetched_count :: nat
  fetched_lots :: "lot list"
  fetched_participation :: "string \<rightharpoonup> bool"

record debug_info =
  debug_computed :: string
  debug_stored :: string
  debug_account :: string
  debug_caller :: string

text \<open>
  What the outside world answers to the awaited calls of one handler run: the account that
  executes a call, the provider, the proof backend and the contract's read entry points.
  A left summand or \<open>Some\<close> message is a rejected promise.
\<close>

record replies =
  execute_reply :: "string throws"
  register_reply :: "string option"
  retry_reply :: "string throws"
  wait_reply :: "string option"
  receipt_reply :: "receipt throws"
  backend_reply :: backend
  lot_info_reply :: "lot throws"
  winner_reply :: "string option"
  payment_done_reply :: "string option"
  session_ready :: bool
  session_ready_after :: bool
  participated_reply :: bool
  fetch_lots_reply :: "fetched throws"
  debug_reply :: "debug_info throws"

text \<open>
  The component's state as one handler run sees and changes it, the browser's
  \<open>localStorage\<close>, and three logs: the toasts shown, the calls handed to an account for
  execution (\<open>sent\<close>) and the requests posted to the proof backend (\<open>requests\<close>).
  \<open>contractRef\<close> holds the contract's address when the contract object exists;
  \<open>walletAccount\<close> holds the wallet account's address when the account object exists.
  Messages are given without the pictograph that opens some of them in the source; console
  output is not part of the state.
\<close>

record page =
  contractRef :: "string option"
  isCavosAuth :: bool
  cavosAddress :: "string option"
  walletAccount :: "string option"
  isOwner :: bool
  newProductor :: string
  newRaza :: string
  newPeso :: string
  newCantidad :: string
  newMetadataHash :: string
  newDuration :: string
  nextLotId :: string
  lots :: "lot list"
  loadingLots :: bool
  refreshing :: bool
  selectedLotId :: string
  selectedLotInfo :: "lot option"
  currentTime :: int
  amount :: string
  nonce :: string
  isLoading :: bool
  committed :: bool
  revealed :: bool
  commitment :: string
  errorMessage :: string
  participatedLotes :: "string \<rightharpoonup> bool"
  proofGeneratedLotes :: "string \<rightharpoonup> bool"
  zkFinalizedLotes :: "string \<rightharpoonup> bool"
  debugData :: "debug_info option"
  localStorage :: "string \<rightharpoonup> stored"
  toasts :: "toast list"
  sent :: "call list"
  requests :: "request list"

definition DEFAULT_PRODUCER :: string where
  "DEFAULT_PRODUCER = ''0x0626bb9241ba6334ae978cfce1280d725e727a6acb5e61392ab4cee031a4b7ca''"

text \<open>A value is truthy when it is present and not the empty string.\<close>

definition truthy :: "string option \<Rightarrow> bool" where
  "truthy a = (case a of None \<Rightarrow> False | Some s \<Rightarrow> s \<noteq> [])"

definition activeAccount :: "page \<Rightarrow> bool" where
  "activeAccount st = (if isCavosAuth st then truthy (cavosAddress st) else walletAccount st \<noteq> None)"

definition activeAccountAddress :: "page \<Rightarrow> string option" where
  "activeAccountAddress st = (if isCavosAuth st then cavosAddress st else walletAccount st)"

definition toastOf :: "toast \<Rightarrow> page \<Rightarrow> page" where
  "toastOf t st = st\<lparr>toasts := toasts st @ [t]\<rparr>"

definition send :: "call \<Rightarrow> page \<Rightarrow> page" where
  "send c st = st\<lparr>sent := sent st @ [c]\<rparr>"

definition post :: "request \<Rightarrow> page \<Rightarrow> page" where
  "post q st = st\<lparr>requests := requests st @ [q]\<rparr>"

definition setItem :: "string \<Rightarrow> stored \<Rightarrow> page \<Rightarrow> page" where
  "setItem k v st = st\<lparr>localStorage := (localStorage st)(k \<mapsto> v)\<rparr>"

definition removeItem :: "string \<Rightarrow> page \<Rightarrow> page" where
  "removeItem k st = st\<lparr>localStorage := (localStorage st)(k := None)\<rparr>"

text \<open>\<open>s.includes(pat)\<close> of the host language.\<close>

fun includesStr :: "string \<Rightarrow> string \<Rightarrow> bool" where
  "includesStr [] pat = (pat = [])"
| "includesStr (c # cs) pat = (prefix pat (c # cs) \<or> includesStr cs pat)"

text \<open>The result of a \<open>try\<close> block: it ran to a \<open>return\<close> or its end, or it threw.\<close>

datatype outcome = Returned page | Threw string page

section \<open>The commitment preview\<close>

text \<open>
  The memo \<open>calculatedCommitment\<close> reads the state variables \<open>amount\<close>, \<open>nonce\<close> and
  \<open>committed\<close>; the empty string stands for no preview. Its body runs while the component
  function is being evaluated, at the place of the memo, which comes before the declaration
  \<open>const splitU256\<close> further down in the same function body. A call of \<open>splitU256\<close> from
  there finds the constant not yet initialised and throws a \<open>ReferenceError\<close>; the memo's
  own \<open>catch\<close> turns every exception into the empty string. The handlers run after the
  body has been evaluated and call \<open>splitU256\<close> itself.
\<close>

definition splitU256_in_render :: "int \<Rightarrow> u256_parts throws" where
  "splitU256_in_render v = Inl ''ReferenceError''"

definition calculatedCommitment :: "(int list \<Rightarrow> int) \<Rightarrow> page \<Rightarrow> string" where
  "calculatedCommitment H st =
     (if amount st = [] \<or> nonce st = [] \<or> committed st then []
      else case BigInt (amount st) of
        None \<Rightarrow> []
      | Some amountBig \<Rightarrow>
          (case BigInt (nonce st) of
             None \<Rightarrow> []
           | Some nonceBig \<Rightarrow>
               (case splitU256_in_render amountBig of
                  Inl m \<Rightarrow> []
                | Inr p \<Rightarrow> bigintToString 10 (H [low p, high p, nonceBig]))))"

section \<open>The owner check\<close>

text \<open>
  The effect that sets \<open>isOwner\<close>. \<open>ownerEnv\<close> is \<open>NEXT_PUBLIC_OWNER_ADDRESS\<close>, absent or
  empty when not configured. The result is the new value of \<open>isOwner\<close>.
\<close>

definition ownerAddress :: "string option \<Rightarrow> string" where
  "ownerAddress ownerEnv = toLowerCase (if truthy ownerEnv then (case ownerEnv of Some s \<Rightarrow> s | None \<Rightarrow> []) else DEFAULT_PRODUCER)"

definition ownerCheck :: "string option \<Rightarrow> string option \<Rightarrow> bool" where
  "ownerCheck ownerEnv account =
     (if truthy account then
        (let normalizedAccount = toLowerCase (toHexAddressOpt account);
             normalizedOwner = toLowerCase (toHexAddress (ownerAddress ownerEnv))
         in normalizedAccount = normalizedOwner)
      else False)"

definition ownerEffect :: "string option \<Rightarrow> page \<Rightarrow> page" where
  "ownerEffect ownerEnv st = st\<lparr>isOwner := ownerCheck ownerEnv (activeAccountAddress st)\<rparr>"

section \<open>The auction clock\<close>

definition isAuctionActive :: "int \<Rightarrow> lot option \<Rightarrow> bool" where
  "isAuctionActive now l =
     (case l of
        None \<Rightarrow> False
      | Some lt \<Rightarrow>
          if finalizado lt then False
          else let endTime = start_time lt + duration lt in now < endTime)"

definition getTimeRemaining :: "int \<Rightarrow> lot option \<Rightarrow> string" where
  "getTimeRemaining now l =
     (case l of
        None \<Rightarrow> []
      | Some lt \<Rightarrow>
          let endTime = start_time lt + duration lt;
              remaining = endTime - now
          in if remaining \<le> 0 then ''Ended''
             else let hours = remaining div 3600;
                      minutes = (remaining mod 3600) div 60;
                      seconds = remaining mod 60
                  in bigintToString 10 hours @ ''h '' @ bigintToString 10 minutes @ ''m ''
                     @ bigintToString 10 seconds @ ''s'')"

section \<open>Shared steps of the handlers\<close>

text \<open>
  The item under a key when it is truthy (\<open>localStorage.getItem(k)\<close> followed by a test or
  by \<open>|| "[]"\<close>): an absent item and an empty text both count as no data.
\<close>

definition storedData :: "page \<Rightarrow> string \<Rightarrow> stored option" where
  "storedData st k = (case localStorage st k of Some (Text []) \<Rightarrow> None | v \<Rightarrow> v)"

text \<open>
  \<open>JSON.parse(localStorage.getItem(k) || "[]")\<close> read as a list of bids. The page writes
  nothing but lists of bids under such a key; an item of another shape is taken as a
  failure of the handler.
\<close>

definition readBids :: "stored option \<Rightarrow> bid list throws" where
  "readBids v = (case v of None \<Rightarrow> Inr [] | Some (JBids bs) \<Rightarrow> Inr bs | Some _ \<Rightarrow> Inl ''TypeError'')"

definition fetchAllLots :: "bool \<Rightarrow> replies \<Rightarrow> page \<Rightarrow> page" where
  "fetchAllLots showRefreshing r st =
     (if contractRef st = None then st
      else case fetch_lots_reply r of
        Inl m \<Rightarrow> (toastOf (ToastError ''Failed to load lots'') st)\<lparr>loadingLots := False, refreshing := False\<rparr>
      | Inr f \<Rightarrow>
          st\<lparr>nextLotId := bigintToString 10 (int (fetched_count f) + 1),
             lots := fetched_lots f,
             participatedLotes :=
               (if truthy (activeAccountAddress st) \<and> fetched_lots f \<noteq> []
                then fetched_participation f else participatedLotes st),
             loadingLots := False, refreshing := False\<rparr>)"

text \<open>
  \<open>executeTransaction(call)\<close>: with a social login the call goes to \<open>cavosExecute\<close>, and
  once more after registering the session when the first attempt fails with
  \<open>Session not registered\<close>; otherwise it goes to the wallet account. Every attempt is
  logged in \<open>sent\<close>.
\<close>

definition executeTransaction :: "call \<Rightarrow> replies \<Rightarrow> page \<Rightarrow> string throws \<times> page" where
  "executeTransaction c r st =
     (if isCavosAuth st then
        (case execute_reply r of
           Inr txHash \<Rightarrow> (Inr txHash, send c st)
         | Inl msg \<Rightarrow>
             if includesStr msg ''Session not registered'' then
               (let st1 = toastOf (ToastLoading ''Updating policy and registering session...'') (send c st)
                in case register_reply r of
                     Some regMsg \<Rightarrow>
                       (Inl (''Failed to activate session: '' @ regMsg),
                        toastOf (ToastError ''Please use the \"Activate\" button next to your address and try again.'')
                          (toastOf (ToastError (''Auto-activation failed: '' @ regMsg)) st1))
                   | None \<Rightarrow>
                       (let st2 = send c (toastOf (ToastSuccess ''Session activated!'') st1)
                        in case retry_reply r of
                             Inr txHash \<Rightarrow> (Inr txHash, st2)
                           | Inl regMsg \<Rightarrow>
                               (Inl (''Failed to activate session: '' @ regMsg),
                                toastOf (ToastError ''Please use the \"Activate\" button next to your address and try again.'')
                                  (toastOf (ToastError (''Auto-activation failed: '' @ regMsg)) st2))))
             else (Inl msg, send c st))
      else if walletAccount st \<noteq> None then (execute_reply r, send c st)
      else (Inl ''No account connected'', st))"

text \<open>The inline variant of the last three handlers: one attempt, no session retry.\<close>

definition executeDirect :: "call \<Rightarrow> replies \<Rightarrow> page \<Rightarrow> string throws \<times> page" where
  "executeDirect c r st =
     (if isCavosAuth st \<or> walletAccount st \<noteq> None then (execute_reply r, send c st)
      else (Inl ''No account connected'', st))"

text \<open>
  Waiting for the transaction and reading its receipt; \<open>Some\<close> message is the exception
  thrown when the provider fails or the receipt's status is not \<open>SUCCEEDED\<close>.
\<close>

definition confirmTx :: "string \<Rightarrow> replies \<Rightarrow> string option" where
  "confirmTx what r =
     (case wait_reply r of
        Some m \<Rightarrow> Some m
      | None \<Rightarrow>
          (case receipt_reply r of
             Inl m \<Rightarrow> Some m
           | Inr rc \<Rightarrow>
               if execution_status rc \<noteq> ''SUCCEEDED''
               then Some (what @ execution_status rc @ '' - ''
                          @ (if revert_reason rc = [] then ''unknown'' else revert_reason rc))
               else None))"

definition finish :: "page \<Rightarrow> page" where
  "finish st = st\<lparr>isLoading := False\<rparr>"

section \<open>handleCreateLot\<close>

definition createLotCall :: "page \<Rightarrow> call option" where
  "createLotCall st =
     (let metadataUri = (if prefix ''ipfs://'' (newMetadataHash st) then newMetadataHash st
                         else ''ipfs://'' @ newMetadataHash st)
      in case (BigInt (nextLotId st), BigInt (newPeso st), BigInt (newCantidad st), BigInt (newDuration st)) of
           (Some i, Some p, Some c, Some d) \<Rightarrow>
             Some \<lparr>entrypoint = ''create_lot'',
                   calldata = [bigintToString 10 i, newProductor st, newRaza st, bigintToString 10 p,
                               bigintToString 10 c, metadataUri, bigintToString 10 d]\<rparr>
         | _ \<Rightarrow> None)"

definition createLot_try :: "replies \<Rightarrow> page \<Rightarrow> outcome" where
  "createLot_try r st =
     (case createLotCall st of
        None \<Rightarrow> Threw ''SyntaxError'' st
      | Some c \<Rightarrow>
          (case executeTransaction c r st of
             (Inl m, st1) \<Rightarrow> Threw m st1
           | (Inr txHash, st1) \<Rightarrow>
               (case wait_reply r of
                  Some m \<Rightarrow> Threw m st1
                | None \<Rightarrow>
                    Returned (fetchAllLots False r
                      ((toastOf (ToastSuccess ''Lot created successfully'') st1)
                         \<lparr>newProductor := DEFAULT_PRODUCER, newRaza := [], newPeso := [],
                          newCantidad := [], newMetadataHash := [], newDuration := ''360000''\<rparr>)))))"

definition createLot_catch :: "outcome \<Rightarrow> page" where
  "createLot_catch out =
     (case out of
        Returned st \<Rightarrow> st
      | Threw m st \<Rightarrow> toastOf (ToastError (''Failed to create lot: '' @ m)) st)"

definition handleCreateLot :: "replies \<Rightarrow> page \<Rightarrow> page" where
  "handleCreateLot r st0 =
     (let st = st0\<lparr>errorMessage := []\<rparr>
      in if contractRef st = None \<or> \<not> activeAccount st then st
         else if \<not> isOwner st then st\<lparr>errorMessage := ''Only the owner can create lots''\<rparr>
         else finish (createLot_catch (createLot_try r (st\<lparr>isLoading := True\<rparr>))))"

section \<open>handleCommit\<close>

definition commitSession :: "replies \<Rightarrow> page \<Rightarrow> outcome" where
  "commitSession r st =
     (if isCavosAuth st \<and> \<not> session_ready r then
        (let st1 = toastOf (ToastLoading ''Activating session on-chain...'') st
         in case register_reply r of
              Some m \<Rightarrow> Threw (''Failed to activate session: '' @ m) (toastOf ToastDismiss st1)
            | None \<Rightarrow>
                if session_ready_after r then Returned (toastOf ToastDismiss st1)
                else Threw ''Failed to activate session: Session still not ready after registration''
                       (toastOf ToastDismiss (toastOf ToastDismiss st1)))
      else Returned st)"

definition commitRecord :: "(int list \<Rightarrow> int) \<Rightarrow> string \<Rightarrow> page \<Rightarrow> bid throws" where
  "commitRecord H addr st =
     (case (BigInt (nonce st), BigInt (amount st), BigInt (selectedLotId st)) of
        (Some secretBig, Some amountBig, Some lotIdBig) \<Rightarrow>
          (case computeCommitment H secretBig amountBig lotIdBig addr of
             Inl m \<Rightarrow> Inl m
           | Inr poseidonCommitment \<Rightarrow>
               Inr \<lparr>bid_secret = nonce st, bid_amount = amount st, bid_lot_id = selectedLotId st,
                    bid_winner = toLowerCase (toHexAddress addr), bid_commitment = poseidonCommitment\<rparr>)
      | _ \<Rightarrow> Inl ''SyntaxError'')"

definition commit_submit :: "replies \<Rightarrow> bid \<Rightarrow> page \<Rightarrow> outcome" where
  "commit_submit r b st =
     (let c = \<lparr>entrypoint = ''commit_bid'', calldata = [selectedLotId st, bid_commitment b]\<rparr>
      in case executeTransaction c r st of
           (Inl m, st1) \<Rightarrow> Threw m st1
         | (Inr txHash, st1) \<Rightarrow>
             (case confirmTx ''Commit transaction failed: '' r of
                Some m \<Rightarrow> Threw m st1
              | None \<Rightarrow>
                  Returned (toastOf (ToastSuccess ''Commit successful. Now reveal.'')
                    (st1\<lparr>commitment := bid_commitment b, committed := True,
                         participatedLotes := (participatedLotes st1)(selectedLotId st \<mapsto> participated_reply r)\<rparr>))))"

definition commit_try :: "(int list \<Rightarrow> int) \<Rightarrow> replies \<Rightarrow> string \<Rightarrow> page \<Rightarrow> outcome" where
  "commit_try H r addr st =
     (case commitSession r st of
        Threw m st1 \<Rightarrow> Threw m st1
      | Returned st1 \<Rightarrow>
          (case commitRecord H addr st1 of
             Inl m \<Rightarrow> Threw m st1
           | Inr b \<Rightarrow>
               (let key = ''zk_'' @ selectedLotId st1 @ ''_'' @ bid_winner b;
                    st2 = setItem key (JBid b) st1;
                    bidsKey = ''bids_'' @ selectedLotId st1
                in case readBids (storedData st2 bidsKey) of
                     Inl m \<Rightarrow> Threw m st2
                   | Inr currentBids \<Rightarrow>
                       commit_submit r b (setItem bidsKey (JBids (currentBids @ [b])) st2))))"

definition commit_catch :: "outcome \<Rightarrow> page" where
  "commit_catch out =
     (case out of
        Returned st \<Rightarrow> st
      | Threw m st \<Rightarrow> (toastOf (ToastError (''Commit failed: '' @ m)) st)\<lparr>committed := False\<rparr>)"

definition handleCommit :: "(int list \<Rightarrow> int) \<Rightarrow> replies \<Rightarrow> page \<Rightarrow> page" where
  "handleCommit H r st0 =
     (let st = st0\<lparr>errorMessage := []\<rparr>
      in case activeAccountAddress st of
           None \<Rightarrow> st
         | Some addr \<Rightarrow>
             if contractRef st = None \<or> addr = [] \<or> selectedLotId st = [] then st
             else if \<not> isAuctionActive (currentTime st) (selectedLotInfo st)
             then toastOf (ToastError ''Auction is not active'') st
             else finish (commit_catch (commit_try H r addr (st\<lparr>isLoading := True\<rparr>))))"

section \<open>handleReveal\<close>

definition reveal_success :: "replies \<Rightarrow> string \<Rightarrow> page \<Rightarrow> outcome" where
  "reveal_success r key st =
     (let st1 = toastOf (ToastSuccess ''Bid revealed'') (removeItem key st)
      in case lot_info_reply r of
           Inl m \<Rightarrow> Threw m st1
         | Inr updatedInfo \<Rightarrow>
             (case selectedLotInfo st of
                None \<Rightarrow> Threw ''TypeError'' st1
              | Some cur \<Rightarrow>
                  (let updatedLot = updatedInfo\<lparr>lotId := lotId cur, paymentDone := False\<rparr>
                   in Returned
                        (st1\<lparr>selectedLotInfo := Some updatedLot,
                             lots := map (\<lambda>l. if bigintToString 10 (lotId l) = selectedLotId st
                                              then updatedLot else l) (lots st),
                             participatedLotes := (participatedLotes st1)(selectedLotId st \<mapsto> True),
                             revealed := True\<rparr>))))"

definition reveal_submit :: "replies \<Rightarrow> string \<Rightarrow> int \<Rightarrow> int \<Rightarrow> int \<Rightarrow> page \<Rightarrow> outcome" where
  "reveal_submit r key secretBig amountBig lotIdBig st =
     (let a = splitU256 amountBig;
          l = splitU256 lotIdBig;
          nonceHex = ''0x'' @ bigintToString 16 secretBig;
          c = \<lparr>entrypoint = ''reveal_bid'',
               calldata = [bigintToString 10 (low l), bigintToString 10 (high l),
                           bigintToString 10 (low a), bigintToString 10 (high a), nonceHex]\<rparr>
      in case executeDirect c r st of
           (Inl m, st1) \<Rightarrow> Threw m st1
         | (Inr txHash, st1) \<Rightarrow>
             (case confirmTx ''Reveal transaction failed: '' r of
                Some m \<Rightarrow> Threw m st1
              | None \<Rightarrow> reveal_success r key st1))"

definition reveal_try :: "(int list \<Rightarrow> int) \<Rightarrow> replies \<Rightarrow> string \<Rightarrow> page \<Rightarrow> outcome" where
  "reveal_try H r addr st =
     (let winnerAddrFormatted = toLowerCase (toHexAddress addr);
          key = ''zk_'' @ selectedLotId st @ ''_'' @ winnerAddrFormatted
      in case storedData st key of
           None \<Rightarrow> Returned (finish (toastOf (ToastError ''No commit data found for this account'') st))
         | Some (JBid b) \<Rightarrow>
             if toLowerCase (bid_winner b) \<noteq> winnerAddrFormatted
             then Returned (finish (toastOf (ToastError ''Winner address mismatch'') st))
             else
               (case (BigInt (bid_secret b), BigInt (bid_amount b), BigInt (selectedLotId st)) of
                  (Some secretBig, Some amountBig, Some lotIdBig) \<Rightarrow>
                    (case computeCommitment H secretBig amountBig lotIdBig addr of
                       Inl m \<Rightarrow> Threw m st
                     | Inr computedCommitment \<Rightarrow>
                         if computedCommitment \<noteq> bid_commitment b
                         then Returned (finish (toastOf (ToastError ''Local commitment mismatch'') st))
                         else reveal_submit r key secretBig amountBig lotIdBig st)
                | _ \<Rightarrow> Threw ''SyntaxError'' st)
         | Some _ \<Rightarrow> Threw ''TypeError'' st)"

definition reveal_debug :: "replies \<Rightarrow> string \<Rightarrow> page \<Rightarrow> page" where
  "reveal_debug r addr st =
     (let key = ''zk_'' @ selectedLotId st @ ''_'' @ toLowerCase (toHexAddress addr)
      in case storedData st key of
           Some (JBid b) \<Rightarrow>
             (case debug_reply r of
                Inl m \<Rightarrow> st
              | Inr d \<Rightarrow> toastOf (ToastError ''Commitment mismatch'') (st\<lparr>debugData := Some d\<rparr>))
         | _ \<Rightarrow> st)"

definition reveal_catch :: "replies \<Rightarrow> string \<Rightarrow> outcome \<Rightarrow> page" where
  "reveal_catch r addr out =
     (case out of
        Returned st \<Rightarrow> st
      | Threw m st \<Rightarrow>
          (let st1 = (if includesStr m ''Commitment mismatch'' \<or> includesStr m ''commitment''
                      then reveal_debug r addr st else st)
           in (toastOf (ToastError (''Reveal failed: '' @ m)) st1)\<lparr>revealed := False\<rparr>))"

definition handleReveal :: "(int list \<Rightarrow> int) \<Rightarrow> replies \<Rightarrow> page \<Rightarrow> page" where
  "handleReveal H r st0 =
     (let st = st0\<lparr>errorMessage := []\<rparr>
      in case activeAccountAddress st of
           None \<Rightarrow> st
         | Some addr \<Rightarrow>
             if contractRef st = None \<or> addr = [] \<or> selectedLotId st = [] then st
             else if \<not> isAuctionActive (currentTime st) (selectedLotInfo st)
             then toastOf (ToastError ''Auction is not active'') st
             else finish (reveal_catch r addr (reveal_try H r addr (st\<lparr>isLoading := True\<rparr>))))"

section \<open>handleZKProof\<close>

definition zkProof_success :: "replies \<Rightarrow> string \<Rightarrow> page \<Rightarrow> outcome" where
  "zkProof_success r txHash st =
     (let st1 = setItem (''proof_tx_'' @ selectedLotId st) (Text txHash)
                  ((toastOf (ToastSuccess ''Payment verified on-chain'') (toastOf ToastDismiss st))
                     \<lparr>proofGeneratedLotes := (proofGeneratedLotes st)(selectedLotId st \<mapsto> True)\<rparr>)
      in case payment_done_reply r of
           Some m \<Rightarrow> Threw m st1
         | None \<Rightarrow> Returned (fetchAllLots True r st1))"

definition zkProof_try :: "replies \<Rightarrow> bid \<Rightarrow> page \<Rightarrow> outcome" where
  "zkProof_try r winningBid st =
     (let st1 = post (Post ''/api/zk-payment'' [winningBid])
                  (toastOf (ToastLoading ''Generating payment proof via backend...'') st)
      in case backend_reply r of
           FetchFailed m \<Rightarrow> Threw m st1
         | NotOk status errorText \<Rightarrow> Threw (''Backend error ('' @ status @ ''): '' @ errorText) st1
         | Calldata cd \<Rightarrow>
             (let st2 = toastOf (ToastLoading ''Verifying payment on contract...'') (toastOf ToastDismiss st1)
              in if contractRef st2 = None then Threw ''TypeError'' st2
                 else
                   (let c = \<lparr>entrypoint = ''verify_payment'', calldata = selectedLotId st # cd\<rparr>
                    in case executeDirect c r st2 of
                         (Inl m, st3) \<Rightarrow> Threw m st3
                       | (Inr txHash, st3) \<Rightarrow>
                           (case confirmTx ''verify_payment failed: '' r of
                              Some m \<Rightarrow> Threw m st3
                            | None \<Rightarrow> zkProof_success r txHash st3))))"

definition zkProof_catch :: "outcome \<Rightarrow> page" where
  "zkProof_catch out =
     (case out of
        Returned st \<Rightarrow> st
      | Threw m st \<Rightarrow> toastOf (ToastError (''Payment failed: '' @ m)) (toastOf ToastDismiss st))"

definition handleZKProof :: "replies \<Rightarrow> page \<Rightarrow> page" where
  "handleZKProof r st =
     (case (activeAccountAddress st, selectedLotInfo st) of
        (Some addr, Some lt) \<Rightarrow>
          if addr = [] \<or> \<not> finalizado lt then st
          else if normalizeAddress (mejor_postor lt) \<noteq> normalizeAddress addr
          then toastOf (ToastError ''Only the winner can generate the ZK proof'') st
          else
            (case readBids (storedData st (''bids_'' @ selectedLotId st)) of
               Inl m \<Rightarrow> st
             | Inr allBids \<Rightarrow>
                 if allBids = [] then toastOf (ToastError ''No bids found for this lot'') st
                 else
                   (case find (\<lambda>b. normalizeAddress (bid_winner b) = normalizeAddress addr) allBids of
                      None \<Rightarrow> toastOf (ToastError ''Winning bid not found in localStorage'') st
                    | Some winningBid \<Rightarrow>
                        finish (zkProof_catch (zkProof_try r winningBid (st\<lparr>isLoading := True\<rparr>)))))
      | _ \<Rightarrow> st)"

section \<open>handleFinalizeWithZK\<close>

definition finalize_success :: "replies \<Rightarrow> string \<Rightarrow> lot \<Rightarrow> page \<Rightarrow> outcome" where
  "finalize_success r txHash cur st =
     (let st1 = toastOf (ToastSuccess ''Lot finalized with ZK proof!'') (toastOf ToastDismiss st)
      in case lot_info_reply r of
           Inl m \<Rightarrow> Threw m st1
         | Inr updatedInfo \<Rightarrow>
             (let updatedLot = updatedInfo\<lparr>lotId := lotId cur, paymentDone := False\<rparr>;
                  st2 = st1\<lparr>selectedLotInfo := Some updatedLot\<rparr>
              in case winner_reply r of
                   Some m \<Rightarrow> Threw m st2
                 | None \<Rightarrow>
                     (let st3 = fetchAllLots True r st2;
                          st4 = st3\<lparr>zkFinalizedLotes := (zkFinalizedLotes st3)(selectedLotId st \<mapsto> True)\<rparr>;
                          st5 = setItem (''finalize_tx_'' @ selectedLotId st) (Text txHash) st4
                      in Returned (toastOf (ToastSuccess ''Lot finalized with dynamic ZK proof!'')
                                     (toastOf ToastDismiss st5)))))"

definition finalize_submit :: "replies \<Rightarrow> string list \<Rightarrow> lot \<Rightarrow> page \<Rightarrow> outcome" where
  "finalize_submit r cd cur st =
     (let winner = mejor_postor cur;
          winnerAmount = mejor_puja cur
      in if winner = [] \<or> winner = ''0x0'' \<or> winnerAmount = ''0''
         then Threw ''No winner determined yet'' st
         else
           (let st1 = toastOf (ToastLoading ''Submitting ZK proof to contract...'') st;
                c = \<lparr>entrypoint = ''finalize_with_zk'',
                     calldata = selectedLotId st # winner # winnerAmount # cd\<rparr>
            in case executeDirect c r st1 of
                 (Inl m, st2) \<Rightarrow> Threw m st2
               | (Inr txHash, st2) \<Rightarrow>
                   (case confirmTx ''finalize_with_zk failed: '' r of
                      Some m \<Rightarrow> Threw m st2
                    | None \<Rightarrow> finalize_success r txHash cur st2)))"

definition finalize_try :: "replies \<Rightarrow> lot \<Rightarrow> page \<Rightarrow> outcome" where
  "finalize_try r cur st =
     (case readBids (storedData st (''bids_'' @ selectedLotId st)) of
        Inl m \<Rightarrow> Threw m st
      | Inr allBids \<Rightarrow>
          if allBids = [] then Returned (finish (toastOf (ToastError ''No bids in this lot'') st))
          else
            (let st1 = post (Post ''/api/zk-proof'' allBids)
                         (toastOf (ToastLoading ''Generating ZK proof via backend...'') st)
             in case backend_reply r of
                  FetchFailed m \<Rightarrow> Threw m st1
                | NotOk status errorText \<Rightarrow> Threw (''Backend error ('' @ status @ ''): '' @ errorText) st1
                | Calldata cd \<Rightarrow> finalize_submit r cd cur (toastOf ToastDismiss st1)))"

definition finalize_catch :: "outcome \<Rightarrow> page" where
  "finalize_catch out =
     (case out of
        Returned st \<Rightarrow> st
      | Threw m st \<Rightarrow> toastOf (ToastError (''Failed: '' @ m)) (toastOf ToastDismiss st))"

definition handleFinalizeWithZK :: "replies \<Rightarrow> page \<Rightarrow> page" where
  "handleFinalizeWithZK r st =
     (case selectedLotInfo st of
        None \<Rightarrow> st
      | Some cur \<Rightarrow>
          if contractRef st = None \<or> \<not> truthy (activeAccountAddress st) \<or> selectedLotId st = [] then st
          else if \<not> isOwner st then toastOf (ToastError ''Only the owner can finalize with ZK'') st
          else if finalizado cur then toastOf (ToastError ''Lot already finalized'') st
          else finish (finalize_catch (finalize_try r cur (st\<lparr>isLoading := True\<rparr>))))"

section \<open>Predicates used to state the properties\<close>

text \<open>A lower-case hexadecimal digit, and an address spelled \<open>0x\<close> followed by such digits.\<close>

definition isLowerHexDigit :: "char \<Rightarrow> bool" where
  "isLowerHexDigit c =
     (let n = (of_char c :: nat) in (48 \<le> n \<and> n \<le> 57) \<or> (97 \<le> n \<and> n \<le> 102))"

definition isLowerHexAddress :: "string \<Rightarrow> bool" where
  "isLowerHexAddress a = (prefix ''0x'' a \<and> list_all isLowerHexDigit (drop 2 a))"

text \<open>The second replacement of \<open>normalizeAddress\<close>: leading zeros removed.\<close>

abbreviation strip0 :: "string \<Rightarrow> string" where
  "strip0 \<equiv> dropWhile (\<lambda>c. c = CHR ''0'')"


text \<open>
  The condition of the payment step: an account is connected, a lot is selected and
  finalized, and the account's normalised address is the normalised best bidder.
\<close>

definition winnerGate :: "page \<Rightarrow> bool" where
  "winnerGate st =
     (case (activeAccountAddress st, selectedLotInfo st) of
        (Some addr, Some lt) \<Rightarrow>
          addr \<noteq> [] \<and> finalizado lt \<and> normalizeAddress (mejor_postor lt) = normalizeAddress addr
      | _ \<Rightarrow> False)"

text \<open>The proof backend answered with calldata; the transaction was accepted and its receipt reports success.\<close>

definition proofObtained :: "replies \<Rightarrow> bool" where
  "proofObtained r = (case backend_reply r of Calldata cd \<Rightarrow> True | _ \<Rightarrow> False)"

definition txSucceeded :: "replies \<Rightarrow> bool" where
  "txSucceeded r =
     ((case execute_reply r of Inr txHash \<Rightarrow> True | Inl m \<Rightarrow> False)
      \<and> wait_reply r = None
      \<and> (case receipt_reply r of Inr rc \<Rightarrow> execution_status rc = ''SUCCEEDED'' | Inl m \<Rightarrow> False))"

text \<open>The handler got past its opening presence check (contract, account address, lot id).\<close>

definition connected :: "page \<Rightarrow> bool" where
  "connected st = (contractRef st \<noteq> None \<and> truthy (activeAccountAddress st) \<and> selectedLotId st \<noteq> [])"

text \<open>An account is connected and the selected lot is finalized.\<close>

definition finalizedSelection :: "page \<Rightarrow> bool" where
  "finalizedSelection st =
     (case (activeAccountAddress st, selectedLotInfo st) of
        (Some addr, Some lt) \<Rightarrow> addr \<noteq> [] \<and> finalizado lt
      | _ \<Rightarrow> False)"

text \<open>The call that \<open>handleReveal\<close> builds from the lot id, the amount and the secret.\<close>

definition revealCall :: "int \<Rightarrow> int \<Rightarrow> int \<Rightarrow> call" where
  "revealCall secretBig amountBig lotIdBig =
     \<lparr>entrypoint = ''reveal_bid'',
      calldata = [bigintToString 10 (lotIdBig mod 2 ^ 128), bigintToString 10 (lotIdBig div 2 ^ 128),
                  bigintToString 10 (amountBig mod 2 ^ 128), bigintToString 10 (amountBig div 2 ^ 128),
                  ''0x'' @ bigintToString 16 secretBig]\<rparr>"

text \<open>The page at the end of a \<open>try\<close> block, however it ended.\<close>

fun pageOf :: "outcome \<Rightarrow> page" where
  "pageOf (Returned st) = st"
| "pageOf (Threw m st) = st"

text \<open>The key under which an account's bid on a lot is kept in \<open>localStorage\<close>.\<close>

definition zkKey :: "string \<Rightarrow> string \<Rightarrow> string" where
  "zkKey lot addr = ''zk_'' @ lot @ ''_'' @ toLowerCase (toHexAddress addr)"

text \<open>
  None of the writes of the success path of \<open>handleFinalizeWithZK\<close> has happened between
  two pages: the ZK-finalized marks, \<open>localStorage\<close>, the selected lot and the lot list
  are the same.
\<close>

definition noSuccessWrites :: "page \<Rightarrow> page \<Rightarrow> bool" where
  "noSuccessWrites st' st =
     (zkFinalizedLotes st' = zkFinalizedLotes st \<and> localStorage st' = localStorage st
      \<and> selectedLotInfo st' = selectedLotInfo st \<and> lots st' = lots st)"

section \<open>A concrete scenario\<close>

text \<open>
  Lot 1 runs from second 1000 for 100 seconds; the wallet account \<open>0x1f\<close> is connected at
  second 1050 with amount 50 and secret 7 typed in. In the concrete runs below the sum of
  the inputs stands in for the hash, so the commitment of this bid is \<open>7 + 50 + 1 + 31\<close>.
\<close>

definition sampleLot :: lot where
  "sampleLot =
     \<lparr>lotId = 1, productor = DEFAULT_PRODUCER, raza = ''0'', peso_inicial = ''400'',
      cantidad_animales = ''10'', metadata_uri = ''ipfs://lot1'', start_time = 1000,
      duration = 100, finalizado = False, mejor_puja = ''50'',
      mejor_postor = ''0x000000000000000000000000000000000000000000000000000000000000001f'',
      paymentDone = False\<rparr>"

definition samplePage :: page where
  "samplePage =
     \<lparr>contractRef = Some ''0xc0ffee'', isCavosAuth = False, cavosAddress = None,
      walletAccount = Some ''0x1f'', isOwner = False,
      newProductor = DEFAULT_PRODUCER, newRaza = ''1'', newPeso = ''400'', newCantidad = ''10'',
      newMetadataHash = ''lot2'', newDuration = ''360000'', nextLotId = ''2'',
      lots = [sampleLot], loadingLots = False, refreshing = False,
      selectedLotId = ''1'', selectedLotInfo = Some sampleLot, currentTime = 1050,
      amount = ''50'', nonce = ''7'', isLoading = False, committed = False, revealed = False,
      commitment = [], errorMessage = [],
      participatedLotes = Map.empty, proofGeneratedLotes = Map.empty,
      zkFinalizedLotes = Map.empty, debugData = None, localStorage = Map.empty,
      toasts = [], sent = [], requests = []\<rparr>"

definition sampleBid :: bid where
  "sampleBid =
     \<lparr>bid_secret = ''7'', bid_amount = ''50'', bid_lot_id = ''1'',
      bid_winner = ''0x000000000000000000000000000000000000000000000000000000000000001f'',
      bid_commitment = ''89''\<rparr>"

definition sampleKey :: string where
  "sampleKey = ''zk_1_0x000000000000000000000000000000000000000000000000000000000000001f''"

definition sampleReplies :: replies where
  "sampleReplies =
     \<lparr>execute_reply = Inr ''0xabc'', register_reply = None, retry_reply = Inr ''0xabc'',
      wait_reply = None,
      receipt_reply = Inr \<lparr>execution_status = ''SUCCEEDED'', revert_reason = []\<rparr>,
      backend_reply = Calldata [''1'', ''2''], lot_info_reply = Inr sampleLot,
      winner_reply = None, payment_done_reply = None, session_ready = True,
      session_ready_after = True, participated_reply = True,
      fetch_lots_reply = Inr \<lparr>fetched_count = 1, fetched_lots = [sampleLot],
                                fetched_participation = Map.empty\<rparr>,
      debug_reply = Inl ''unavailable''\<rparr>"


text \<open>The same page fifty seconds later, when the window of lot 1 has closed.\<close>

definition closedPage :: page where
  "closedPage = samplePage\<lparr>currentTime := 1100\<rparr>"

definition closedNoContractPage :: page where
  "closedNoContractPage = closedPage\<lparr>contractRef := None\<rparr>"

text \<open>No contract object; another account (\<open>0x2a\<close>) connected; lot 1 after finalization.\<close>

definition noContractPage :: page where
  "noContractPage = samplePage\<lparr>contractRef := None\<rparr>"

definition otherPage :: page where
  "otherPage = samplePage\<lparr>walletAccount := Some ''0x2a''\<rparr>"

definition finalizedLot :: lot where
  "finalizedLot = sampleLot\<lparr>finalizado := True\<rparr>"

text \<open>The page after the account's commit was stored locally.\<close>

definition committedPage :: page where
  "committedPage = samplePage\<lparr>localStorage := [sampleKey \<mapsto> JBid sampleBid, ''bids_1'' \<mapsto> JBids [sampleBid]]\<rparr>"

text \<open>The owner's page with the bid of lot 1 in \<open>localStorage\<close>, and a backend that is down.\<close>

definition ownerPage :: page where
  "ownerPage = committedPage\<lparr>isOwner := True\<rparr>"

definition backendDown :: replies where
  "backendDown = sampleReplies\<lparr>backend_reply := NotOk ''500'' ''down''\<rparr>"

definition otherFinalizedPage :: page where
  "otherFinalizedPage = otherPage\<lparr>selectedLotInfo := Some finalizedLot\<rparr>"

definition closedCommittedPage :: page where
  "closedCommittedPage = committedPage\<lparr>currentTime := 1100\<rparr>"

section \<open>Properties of the codec helpers\<close>

lemma splitU256_low: "low (splitU256 v) = v mod 2 ^ 128"
proof -
  have m: "(push_bit 128 1 - 1 :: int) = mask 128"
    by (simp only: mask_eq_exp_minus_1 push_bit_of_1)
  have "low (splitU256 v) = v AND mask 128"
    unfolding splitU256_def Let_def m by (simp only: u256_parts.select_convs)
  also have "\<dots> = take_bit 128 v"
    by (simp only: take_bit_eq_mask)
  also have "\<dots> = v mod 2 ^ 128"
    by (simp only: take_bit_eq_mod)
  finally show ?thesis .
qed

lemma splitU256_high: "high (splitU256 v) = v div 2 ^ 128"
  by (simp add: splitU256_def Let_def drop_bit_eq_div)

section \<open>Hexadecimal digits: printing and reading\<close>

lemma char_zero_iff: "(of_char c :: nat) = 48 \<longleftrightarrow> c = CHR ''0''"
proof -
  have "(of_char (CHR ''0'') :: nat) = 48" by simp
  then show ?thesis by (metis of_char_eq_iff)
qed

lemma lowerHex_digit:
  assumes "isLowerHexDigit c"
  shows "\<exists>d. digitVal c = Some d \<and> d < 16 \<and> digitChar d = c"
proof -
  define n where "n = (of_char c :: nat)"
  have c: "char_of n = c" by (simp add: n_def)
  from assms have "(48 \<le> n \<and> n \<le> 57) \<or> (97 \<le> n \<and> n \<le> 102)"
    by (simp add: isLowerHexDigit_def n_def Let_def)
  then show ?thesis
  proof
    assume r: "48 \<le> n \<and> n \<le> 57"
    then have "digitVal c = Some (n - 48)" by (simp add: digitVal_def n_def Let_def)
    moreover have "n - 48 < 10" "48 + (n - 48) = n" using r by arith+
    then have "digitChar (n - 48) = c" using c by (simp add: digitChar_def)
    ultimately show ?thesis using r by auto
  next
    assume r: "97 \<le> n \<and> n \<le> 102"
    then have "digitVal c = Some (n - 87)" by (simp add: digitVal_def n_def Let_def)
    moreover have "\<not> n - 87 < 10" "87 + (n - 87) = n" using r by arith+
    then have "digitChar (n - 87) = c" using c by (simp add: digitChar_def)
    ultimately show ?thesis using r by auto
  qed
qed

lemma lowerHex_not_ws: "isLowerHexDigit c \<Longrightarrow> \<not> isWhiteSpace c"
  unfolding isLowerHexDigit_def isWhiteSpace_def Let_def by auto

lemma trim_id:
  assumes "s \<noteq> []" "\<not> isWhiteSpace (hd s)" "\<not> isWhiteSpace (last s)"
  shows "trim s = s"
proof -
  have 1: "dropWhile isWhiteSpace s = s"
    using assms(1,2) by (cases s) auto
  from assms(1) obtain ys y where s: "s = ys @ [y]"
    by (cases s rule: rev_cases) auto
  with assms(3) have 2: "dropWhile isWhiteSpace (rev s) = rev s"
    by simp
  show ?thesis by (simp add: trim_def 1 2)
qed

lemma parseRadix_snoc:
  "parseRadix r acc (ds @ [c]) =
     (case parseRadix r acc ds of
        None \<Rightarrow> None
      | Some v \<Rightarrow> (case digitVal c of None \<Rightarrow> None | Some d \<Rightarrow> if d < r then Some (v * r + d) else None))"
  by (induction ds arbitrary: acc) (auto split: option.splits)

lemma digitsRadix_step:
  assumes "d < 16" "0 < v"
  shows "digitsRadix 16 (v * 16 + d) = digitsRadix 16 v @ [digitChar d]"
proof -
  have "\<not> (v * 16 + d < 16)" using assms by simp
  moreover have "(v * 16 + d) div 16 = v" "(v * 16 + d) mod 16 = d" using assms by simp_all
  ultimately show ?thesis
    by (subst digitsRadix.simps) simp
qed

lemma digitsRadix_small: "d < 16 \<Longrightarrow> digitsRadix 16 d = [digitChar d]"
  by (subst digitsRadix.simps) simp

lemma digitChar_zero:
  assumes "d < 16"
  shows "digitChar d = CHR ''0'' \<longleftrightarrow> d = 0"
proof -
  define k where "k = (if d < 10 then 48 + d else 87 + d)"
  have k: "k < 256" using assms by (simp add: k_def)
  have "digitChar d = CHR ''0'' \<longleftrightarrow> (of_char (char_of k) :: nat) = 48"
    unfolding char_zero_iff by (simp add: digitChar_def k_def)
  also have "\<dots> \<longleftrightarrow> k = 48" using k by simp
  also have "\<dots> \<longleftrightarrow> d = 0" by (auto simp: k_def)
  finally show ?thesis .
qed

lemma digitChar_0: "digitChar 0 = CHR ''0''"
  by (simp add: digitChar_zero)

lemma digitsRadix_nonempty: "digitsRadix 16 v \<noteq> []"
  by (subst digitsRadix.simps) simp

lemma digitsRadix_hd: "0 < v \<Longrightarrow> hd (digitsRadix 16 v) \<noteq> CHR ''0''"
proof (induction v rule: less_induct)
  case (less v)
  show ?case
  proof (cases "v < 16")
    case True
    with less.prems show ?thesis by (simp add: digitsRadix_small digitChar_zero)
  next
    case False
    then have pos: "0 < v div 16" by (simp add: div_greater_zero_iff)
    have lt: "v div 16 < v" using less.prems by simp
    have "digitsRadix 16 v = digitsRadix 16 (v div 16) @ [digitChar (v mod 16)]"
      using False by (subst digitsRadix.simps) simp
    then show ?thesis
      using less.IH [OF lt pos] by (simp add: digitsRadix_nonempty)
  qed
qed

lemma strip0_digitsRadix: "0 < v \<Longrightarrow> strip0 (digitsRadix 16 v) = digitsRadix 16 v"
  using digitsRadix_hd [of v] digitsRadix_nonempty [of v]
  by (cases "digitsRadix 16 v") auto

lemma hex_roundtrip:
  assumes "list_all isLowerHexDigit ds"
  shows "\<exists>v. parseRadix 16 0 ds = Some v \<and> strip0 (digitsRadix 16 v) = strip0 ds"
  using assms
proof (induction ds rule: rev_induct)
  case Nil
  show ?case by (simp add: digitsRadix_small digitChar_0)
next
  case (snoc c ds)
  then obtain v where v: "parseRadix 16 0 ds = Some v" "strip0 (digitsRadix 16 v) = strip0 ds"
    by auto
  from snoc.prems obtain d where d: "digitVal c = Some d" "d < 16" "digitChar d = c"
    using lowerHex_digit by auto
  have p: "parseRadix 16 0 (ds @ [c]) = Some (v * 16 + d)"
    by (simp add: parseRadix_snoc v d)
  show ?case
  proof (cases "v = 0")
    case True
    then have "strip0 ds = []"
      using v(2) by (simp add: digitsRadix_small digitChar_0)
    then have "\<forall>x\<in>set ds. x = CHR ''0''"
      by (simp add: dropWhile_eq_Nil_conv)
    then have "strip0 (ds @ [c]) = strip0 [c]"
      by (simp add: dropWhile_append2)
    moreover have "digitsRadix 16 (v * 16 + d) = [c]"
      using True d by (simp add: digitsRadix_small)
    ultimately show ?thesis using p by simp
  next
    case False
    then have pos: "0 < v" by simp
    have sd: "strip0 ds = digitsRadix 16 v"
      using v(2) strip0_digitsRadix [OF pos] by simp
    then have "strip0 ds \<noteq> []" by (simp add: digitsRadix_nonempty)
    then have ex: "\<exists>x\<in>set ds. x \<noteq> CHR ''0''"
      by (auto simp: dropWhile_eq_Nil_conv)
    then have "strip0 (ds @ [c]) = strip0 ds @ [c]"
      by (auto simp: dropWhile_append1)
    moreover have dr: "digitsRadix 16 (v * 16 + d) = digitsRadix 16 v @ [c]"
      using digitsRadix_step [OF d(2) pos] d(3) by simp
    moreover have "0 < v * 16 + d" using pos by simp
    then have "strip0 (digitsRadix 16 (v * 16 + d)) = digitsRadix 16 (v * 16 + d)"
      by (rule strip0_digitsRadix)
    ultimately show ?thesis using p sd by simp
  qed
qed


lemma normalizeAddress_0x:
  "normalizeAddress (''0x'' @ s) = ''0x'' @ (if strip0 s = [] then ''0'' else strip0 s)"
  by (simp add: normalizeAddress_def Let_def)

lemma strip0_padStart: "strip0 (padStart n (CHR ''0'') s) = strip0 s"
  unfolding padStart_def by (induction "n - length s" arbitrary: n) (simp_all add: dropWhile_append)

lemma BigInt_hex:
  assumes "list_all isLowerHexDigit ds"
  shows "BigInt (''0x'' @ ds) = map_option int (parseDigits 16 ds)"
proof -
  have "\<not> isWhiteSpace (last (''0x'' @ ds))"
  proof (cases "ds = []")
    case True
    then show ?thesis by (simp add: isWhiteSpace_def)
  next
    case False
    then have "last (''0x'' @ ds) = last ds" by simp
    moreover have "isLowerHexDigit (last ds)"
      using assms False by (simp add: list_all_iff)
    ultimately show ?thesis by (simp add: lowerHex_not_ws)
  qed
  moreover have "\<not> isWhiteSpace (hd (''0x'' @ ds))"
    by (simp add: isWhiteSpace_def)
  ultimately have "trim (''0x'' @ ds) = ''0x'' @ ds"
    by (intro trim_id) simp_all
  then show ?thesis
    by (simp add: BigInt_def)
qed

lemma toHexAddress_hex:
  assumes "list_all isLowerHexDigit ds" "ds \<noteq> []"
  shows "\<exists>v. parseRadix 16 0 ds = Some v
           \<and> toHexAddress (''0x'' @ ds) = ''0x'' @ padStart 64 (CHR ''0'') (digitsRadix 16 v)
           \<and> strip0 (digitsRadix 16 v) = strip0 ds"
proof -
  from hex_roundtrip [OF assms(1)] obtain v where
    v: "parseRadix 16 0 ds = Some v" "strip0 (digitsRadix 16 v) = strip0 ds" by blast
  have "BigInt (''0x'' @ ds) = Some (int v)"
    using BigInt_hex [OF assms(1)] assms(2) v(1) by (simp add: parseDigits_def)
  then have "toHexAddress (''0x'' @ ds) = ''0x'' @ padStart 64 (CHR ''0'') (digitsRadix 16 v)"
    by (simp add: toHexAddress_def bigintToString_def)
  with v show ?thesis by blast
qed

lemma normalizeAddress_toHexAddress:
  assumes "isLowerHexAddress b"
  shows "normalizeAddress (toHexAddress b) = normalizeAddress b"
proof -
  from assms obtain ds where b: "b = ''0x'' @ ds" and ds: "list_all isLowerHexDigit ds"
    by (auto simp: isLowerHexAddress_def prefix_def)
  show ?thesis
  proof (cases "ds = []")
    case True
    then have "BigInt b = None"
      using BigInt_hex [OF ds] b by (simp add: parseDigits_def)
    then show ?thesis using b by (simp add: toHexAddress_def)
  next
    case False
    from toHexAddress_hex [OF ds False] obtain v where
      t: "toHexAddress (''0x'' @ ds) = ''0x'' @ padStart 64 (CHR ''0'') (digitsRadix 16 v)"
      and r: "strip0 (digitsRadix 16 v) = strip0 ds" by blast
    show ?thesis
      unfolding b t normalizeAddress_0x strip0_padStart r ..
  qed
qed

lemma normalizeAddress_prefix:
  assumes "addr \<noteq> []"
  shows "\<exists>h. normalizeAddress addr = ''0x'' @ h \<and> h \<noteq> [] \<and> (h = ''0'' \<or> hd h \<noteq> CHR ''0'')"
proof -
  define hex where "hex = dropWhile (\<lambda>c. c = CHR ''0'') (replaceFirst ''0x'' [] addr)"
  have n: "normalizeAddress addr = ''0x'' @ (if hex = [] then ''0'' else hex)"
    using assms by (simp add: normalizeAddress_def Let_def hex_def)
  have "hex \<noteq> [] \<Longrightarrow> hd hex \<noteq> CHR ''0''"
    unfolding hex_def by (rule hd_dropWhile)
  with n show ?thesis by auto
qed

lemma normalizeAddress_idem: "normalizeAddress (normalizeAddress a) = normalizeAddress a"
proof (cases "a = []")
  case True
  then show ?thesis by (simp add: normalizeAddress_def)
next
  case False
  then obtain h where h: "normalizeAddress a = ''0x'' @ h" "h \<noteq> []" "h = ''0'' \<or> hd h \<noteq> CHR ''0''"
    using normalizeAddress_prefix by blast
  have "normalizeAddress (''0x'' @ h) = ''0x'' @ h"
  proof (cases "h = ''0''")
    case True
    then show ?thesis by (simp add: normalizeAddress_def)
  next
    case False
    with h obtain c cs where "h = c # cs" "c \<noteq> CHR ''0''"
      by (cases h) auto
    then show ?thesis by (simp add: normalizeAddress_def)
  qed
  with h(1) show ?thesis by (simp only:)
qed

lemma digitVal_digitChar: 
  assumes "d < 16" shows "digitVal (digitChar d) = Some d"
proof -
  define k where "k = (if d < 10 then 48 + d else 87 + d)"
  have k: "k < 256" using assms by (simp add: k_def)
  have o: "(of_char (digitChar d) :: nat) = k"
    using k by (simp add: digitChar_def k_def)
  show ?thesis
    unfolding digitVal_def o Let_def using assms by (auto simp: k_def)
qed

lemma digitChar_lowerHex: 
  assumes "d < 16" shows "isLowerHexDigit (digitChar d)"
proof -
  define k where "k = (if d < 10 then 48 + d else 87 + d)"
  have k: "k < 256" using assms by (simp add: k_def)
  have o: "(of_char (digitChar d) :: nat) = k"
    using k by (simp add: digitChar_def k_def)
  show ?thesis
    unfolding isLowerHexDigit_def o Let_def using assms by (auto simp: k_def)
qed

lemma parse_digitsRadix: "parseRadix 16 0 (digitsRadix 16 v) = Some v"
proof (induction v rule: less_induct)
  case (less v)
  show ?case
  proof (cases "v < 16")
    case True
    then show ?thesis by (simp add: digitsRadix_small digitVal_digitChar)
  next
    case False
    have lt: "v div 16 < v" using False by simp
    have "digitsRadix 16 v = digitsRadix 16 (v div 16) @ [digitChar (v mod 16)]"
      using False by (subst digitsRadix.simps) simp
    then show ?thesis
      by (simp add: parseRadix_snoc less.IH [OF lt] digitVal_digitChar)
  qed
qed

lemma lowerHex_digitsRadix: "list_all isLowerHexDigit (digitsRadix 16 v)"
proof (induction v rule: less_induct)
  case (less v)
  show ?case
  proof (cases "v < 16")
    case True
    then show ?thesis by (simp add: digitsRadix_small digitChar_lowerHex)
  next
    case False
    have lt: "v div 16 < v" using False by simp
    have "digitsRadix 16 v = digitsRadix 16 (v div 16) @ [digitChar (v mod 16)]"
      using False by (subst digitsRadix.simps) simp
    then show ?thesis
      by (simp add: less.IH [OF lt] digitChar_lowerHex)
  qed
qed

lemma parse_zeros: "parseRadix 16 0 (replicate k (CHR ''0'') @ xs) = parseRadix 16 0 xs"
proof -
  have "digitVal (CHR ''0'') = Some 0" by (simp add: digitVal_def)
  then show ?thesis by (induction k) simp_all
qed

lemma isLowerHexDigit_zero: "isLowerHexDigit (CHR ''0'')"
  by (simp add: isLowerHexDigit_def)

lemma toHexAddress_idem:
  assumes "isLowerHexAddress b"
  shows "toHexAddress (toHexAddress b) = toHexAddress b"
proof -
  from assms obtain ds where b: "b = ''0x'' @ ds" and ds: "list_all isLowerHexDigit ds"
    by (auto simp: isLowerHexAddress_def prefix_def)
  show ?thesis
  proof (cases "ds = []")
    case True
    then have "BigInt b = None"
      using BigInt_hex [OF ds] b by (simp add: parseDigits_def)
    then show ?thesis using b by (simp add: toHexAddress_def)
  next
    case False
    from toHexAddress_hex [OF ds False] obtain v where
      t: "toHexAddress (''0x'' @ ds) = ''0x'' @ padStart 64 (CHR ''0'') (digitsRadix 16 v)" by blast
    define p where "p = padStart 64 (CHR ''0'') (digitsRadix 16 v)"
    have pl: "list_all isLowerHexDigit p"
      using lowerHex_digitsRadix [of v]
      by (auto simp: p_def padStart_def list_all_iff isLowerHexDigit_zero)
    have pn: "p \<noteq> []" by (simp add: p_def padStart_def digitsRadix_nonempty)
    have "parseRadix 16 0 p = Some v"
      unfolding p_def padStart_def by (simp only: parse_zeros parse_digitsRadix)
    then have "BigInt (''0x'' @ p) = Some (int v)"
      using BigInt_hex [OF pl] pn by (simp add: parseDigits_def)
    then have "toHexAddress (''0x'' @ p) = ''0x'' @ p"
      by (simp add: toHexAddress_def bigintToString_def p_def)
    then show ?thesis unfolding b t p_def .
  qed
qed

section \<open>Lower-case conversion and the owner check\<close>

lemma toLowerChar_zero: "toLowerChar c = CHR ''0'' \<Longrightarrow> c = CHR ''0''"
proof -
  assume a: "toLowerChar c = CHR ''0''"
  define n where "n = (of_char c :: nat)"
  have n: "n < 256" by (simp add: n_def)
  show ?thesis
  proof (cases "(65 \<le> n \<and> n \<le> 90) \<or> (192 \<le> n \<and> n \<le> 222 \<and> n \<noteq> 215)")
    case True
    then have "toLowerChar c = char_of (n + 32)"
      by (simp add: toLowerChar_def n_def Let_def)
    with a have "(of_char (char_of (n + 32)) :: nat) = of_char (CHR ''0'')" by simp
    moreover have "n + 32 < 256" using True by auto
    ultimately have "n + 32 = 48" by simp
    with True show ?thesis by simp
  next
    case False
    then have "toLowerChar c = c"
      unfolding toLowerChar_def n_def Let_def by (simp only: if_False)
    with a show ?thesis by simp
  qed
qed

lemma toLowerChar_x: "toLowerChar c = CHR ''x'' \<Longrightarrow> c = CHR ''x'' \<or> c = CHR ''X''"
proof -
  assume a: "toLowerChar c = CHR ''x''"
  define n where "n = (of_char c :: nat)"
  show ?thesis
  proof (cases "(65 \<le> n \<and> n \<le> 90) \<or> (192 \<le> n \<and> n \<le> 222 \<and> n \<noteq> 215)")
    case True
    then have "toLowerChar c = char_of (n + 32)"
      by (simp add: toLowerChar_def n_def Let_def)
    with a have "(of_char (char_of (n + 32)) :: nat) = of_char (CHR ''x'')" by simp
    moreover have "n + 32 < 256" using True by auto
    ultimately have "n + 32 = 120" by simp
    then have "(of_char c :: nat) = of_char (CHR ''X'')" by (simp add: n_def)
    then have "c = CHR ''X''" by (simp only: of_char_eq_iff)
    then show ?thesis by simp
  next
    case False
    then have "toLowerChar c = c"
      unfolding toLowerChar_def n_def Let_def by (simp only: if_False)
    with a show ?thesis by simp
  qed
qed

lemma BigInt_0x0: "BigInt ''0x0'' = Some 0" "BigInt ''0X0'' = Some 0"
  by (simp_all add: BigInt_def trim_def isWhiteSpace_def parseDigits_def digitVal_def)

lemma toHexAddress_not_0x0:
  assumes "t \<noteq> []"
  shows "toLowerCase (toHexAddress t) \<noteq> ''0x0''"
proof (cases "BigInt t")
  case (Some big)
  then have "length (toLowerCase (toHexAddress t)) \<ge> 66"
    using assms by (simp add: toHexAddress_def toLowerCase_def padStart_def)
  then show ?thesis by auto
next
  case None
  then have t: "toHexAddress t = t" using assms by (simp add: toHexAddress_def)
  show ?thesis
  proof
    assume "toLowerCase (toHexAddress t) = ''0x0''"
    then have "map toLowerChar t = ''0x0''" by (simp add: t toLowerCase_def)
    then obtain a b c where abc: "t = [a, b, c]" "toLowerChar a = CHR ''0''"
        "toLowerChar b = CHR ''x''" "toLowerChar c = CHR ''0''"
      by (auto simp: map_eq_Cons_conv)
    then have "t = ''0x0'' \<or> t = ''0X0''"
      using toLowerChar_zero toLowerChar_x by auto
    then have "BigInt t = Some 0" using BigInt_0x0 by auto
    with None show False by simp
  qed
qed

lemma ownerAddress_nonempty: "ownerAddress env \<noteq> []"
  by (cases env) (auto simp: ownerAddress_def truthy_def toLowerCase_def DEFAULT_PRODUCER_def)

lemma ownerCheck_iff:
  "ownerCheck env acct =
     (toLowerCase (toHexAddressOpt acct) = toLowerCase (toHexAddress (ownerAddress env)))"
proof (cases "truthy acct")
  case True
  then show ?thesis by (simp add: ownerCheck_def Let_def)
next
  case False
  then have "toHexAddressOpt acct = ''0x0''"
    by (auto simp: truthy_def toHexAddressOpt_def toHexAddress_def split: option.splits)
  then have "toLowerCase (toHexAddressOpt acct) = ''0x0''"
    by (simp add: toLowerCase_def toLowerChar_def)
  moreover have "toLowerCase (toHexAddress (ownerAddress env)) \<noteq> ''0x0''"
    by (rule toHexAddress_not_0x0 [OF ownerAddress_nonempty])
  ultimately show ?thesis using False by (simp add: ownerCheck_def)
qed

section \<open>Where the handlers stop\<close>

lemma not_active_iff:
  "isAuctionActive now (Some l) = (\<not> finalizado l \<and> now < start_time l + duration l)"
  by (simp add: isAuctionActive_def Let_def)

lemma connected_address:
  "connected st = (contractRef st \<noteq> None \<and> selectedLotId st \<noteq> []
                   \<and> (\<exists>addr. activeAccountAddress st = Some addr \<and> addr \<noteq> []))"
  by (auto simp: connected_def truthy_def split: option.splits)

lemma handleCreateLot_not_owner:
  assumes "\<not> isOwner st"
  shows "handleCreateLot r st =
           (if contractRef st \<noteq> None \<and> activeAccount st
            then st\<lparr>errorMessage := ''Only the owner can create lots''\<rparr>
            else st\<lparr>errorMessage := []\<rparr>)"
  using assms by (simp add: handleCreateLot_def Let_def activeAccount_def)

lemma handleFinalizeWithZK_not_owner:
  assumes "\<not> isOwner st"
  shows "handleFinalizeWithZK r st =
           (if connected st \<and> selectedLotInfo st \<noteq> None
            then toastOf (ToastError ''Only the owner can finalize with ZK'') st
            else st)"
  using assms by (auto simp: handleFinalizeWithZK_def connected_def split: option.splits)

lemma sent_fetchAllLots: "sent (fetchAllLots b r st) = sent st"
  by (simp add: fetchAllLots_def toastOf_def split: sum.splits)

lemma handleCreateLot_owner:
  assumes "isOwner st" "contractRef st \<noteq> None" "activeAccount st"
  shows "handleCreateLot r st =
           finish (createLot_catch (createLot_try r (st\<lparr>errorMessage := [], isLoading := True\<rparr>)))"
  using assms by (auto simp: handleCreateLot_def Let_def activeAccount_def)

lemma handleFinalizeWithZK_owner:
  assumes "isOwner st" "connected st" "selectedLotInfo st = Some cur" "\<not> finalizado cur"
  shows "handleFinalizeWithZK r st = finish (finalize_catch (finalize_try r cur (st\<lparr>isLoading := True\<rparr>)))"
  using assms by (auto simp: handleFinalizeWithZK_def connected_def)

lemma handleZKProof_silent:
  assumes "\<not> finalizedSelection st"
  shows "handleZKProof r st = st"
  using assms
  by (auto simp: handleZKProof_def finalizedSelection_def split: option.splits)

lemma handleZKProof_not_winner:
  assumes "finalizedSelection st" "\<not> winnerGate st"
  shows "handleZKProof r st = toastOf (ToastError ''Only the winner can generate the ZK proof'') st"
  using assms
  by (auto simp: handleZKProof_def finalizedSelection_def winnerGate_def split: option.splits)

section \<open>Calls sent by handleReveal\<close>

lemma sent_reveal_success: "sent (pageOf (reveal_success r key st)) = sent st"
  by (simp add: reveal_success_def Let_def toastOf_def removeItem_def split: sum.splits option.splits)

lemma sent_reveal_debug: "sent (reveal_debug r addr st) = sent st"
  by (simp add: reveal_debug_def Let_def toastOf_def split: sum.splits option.splits stored.splits)

lemma sent_reveal_catch: "sent (reveal_catch r addr out) = sent (pageOf out)"
  by (cases out) (simp_all add: reveal_catch_def Let_def toastOf_def sent_reveal_debug)

lemma sent_finish: "sent (finish st) = sent st"
  by (simp add: finish_def)

lemma revealCall_eq:
  "\<lparr>entrypoint = ''reveal_bid'',
    calldata = [bigintToString 10 (low (splitU256 l)), bigintToString 10 (high (splitU256 l)),
                bigintToString 10 (low (splitU256 a)), bigintToString 10 (high (splitU256 a)),
                ''0x'' @ bigintToString 16 s]\<rparr> = revealCall s a l"
  by (simp only: revealCall_def splitU256_low splitU256_high)

lemma sent_reveal_submit:
  "sent (pageOf (reveal_submit r key s a l st)) =
     (if isCavosAuth st \<or> walletAccount st \<noteq> None then sent st @ [revealCall s a l] else sent st)"
proof -
  have "sent (pageOf (reveal_submit r key s a l st)) =
     (if isCavosAuth st \<or> walletAccount st \<noteq> None then sent (send (revealCall s a l) st) else sent st)"
    unfolding reveal_submit_def Let_def revealCall_eq executeDirect_def
    by (auto simp: sent_reveal_success send_def split: sum.splits option.splits)
  then show ?thesis by (simp add: send_def)
qed

lemma handleReveal_unfold:
  "handleReveal H r st =
     (case activeAccountAddress st of
        None \<Rightarrow> st\<lparr>errorMessage := []\<rparr>
      | Some addr \<Rightarrow>
          if contractRef st = None \<or> addr = [] \<or> selectedLotId st = [] then st\<lparr>errorMessage := []\<rparr>
          else if \<not> isAuctionActive (currentTime st) (selectedLotInfo st)
          then toastOf (ToastError ''Auction is not active'') (st\<lparr>errorMessage := []\<rparr>)
          else finish (reveal_catch r addr (reveal_try H r addr (st\<lparr>errorMessage := [], isLoading := True\<rparr>))))"
  by (simp add: handleReveal_def Let_def activeAccountAddress_def split: option.splits)

lemma handleReveal_refused:
  assumes "\<not> connected st \<or> \<not> isAuctionActive (currentTime st) (selectedLotInfo st)"
  shows "sent (handleReveal H r st) = sent st"
  using assms unfolding handleReveal_unfold connected_address
  by (auto simp: toastOf_def split: option.splits)

lemma handleReveal_not_active:
  assumes "connected st" "\<not> isAuctionActive (currentTime st) (selectedLotInfo st)"
  shows "handleReveal H r st = toastOf (ToastError ''Auction is not active'') (st\<lparr>errorMessage := []\<rparr>)"
  using assms unfolding handleReveal_unfold connected_address
  by (auto split: option.splits)

lemma handleReveal_body:
  assumes "connected st" "isAuctionActive (currentTime st) (selectedLotInfo st)"
      and "activeAccountAddress st = Some addr"
  shows "handleReveal H r st =
           finish (reveal_catch r addr (reveal_try H r addr (st\<lparr>errorMessage := [], isLoading := True\<rparr>)))"
  using assms unfolding handleReveal_unfold connected_address
  by (auto split: option.splits)

lemma reveal_try_match:
  assumes "storedData st (zkKey (selectedLotId st) addr) = Some (JBid b)"
      and "toLowerCase (bid_winner b) = toLowerCase (toHexAddress addr)"
      and "BigInt (bid_secret b) = Some s" "BigInt (bid_amount b) = Some a"
      and "BigInt (selectedLotId st) = Some l"
  shows "reveal_try H r addr st =
           (case computeCommitment H s a l addr of
              Inl m \<Rightarrow> Threw m st
            | Inr c \<Rightarrow>
                if c \<noteq> bid_commitment b
                then Returned (finish (toastOf (ToastError ''Local commitment mismatch'') st))
                else reveal_submit r (zkKey (selectedLotId st) addr) s a l st)"
  using assms unfolding reveal_try_def Let_def zkKey_def [symmetric]
  by (simp split: sum.splits)

lemma account_can_send:
  "activeAccountAddress st = Some addr \<Longrightarrow> isCavosAuth st \<or> walletAccount st \<noteq> None"
  by (auto simp: activeAccountAddress_def split: if_splits)

lemma reveal_gate_active:
  assumes "connected st" "isAuctionActive (currentTime st) (selectedLotInfo st)"
      and "activeAccountAddress st = Some addr"
      and "storedData st (zkKey (selectedLotId st) addr) = Some (JBid b)"
      and "toLowerCase (bid_winner b) = toLowerCase (toHexAddress addr)"
      and "bid_lot_id b = selectedLotId st"
      and "BigInt (bid_secret b) = Some s" "BigInt (bid_amount b) = Some a"
      and "BigInt (bid_lot_id b) = Some l"
  shows "(sent (handleReveal H r st) = sent st @ [revealCall s a l])
           = (computeCommitment H s a l addr = Inr (bid_commitment b))
         \<and> (computeCommitment H s a l addr \<noteq> Inr (bid_commitment b) \<longrightarrow>
              sent (handleReveal H r st) = sent st)
         \<and> (\<forall>c. computeCommitment H s a l addr = Inr c \<and> c \<noteq> bid_commitment b \<longrightarrow>
              handleReveal H r st =
                finish (toastOf (ToastError ''Local commitment mismatch'') (st\<lparr>errorMessage := []\<rparr>)))"
proof -
  define st1 where "st1 = st\<lparr>errorMessage := [], isLoading := True\<rparr>"
  have sd: "storedData st1 (zkKey (selectedLotId st1) addr) = Some (JBid b)"
    using assms(4) by (simp add: st1_def storedData_def)
  have l: "BigInt (selectedLotId st1) = Some l"
    using assms(6,9) by (simp add: st1_def)
  have body: "handleReveal H r st = finish (reveal_catch r addr (reveal_try H r addr st1))"
    unfolding st1_def by (rule handleReveal_body [OF assms(1-3)])
  have tr: "reveal_try H r addr st1 =
           (case computeCommitment H s a l addr of
              Inl m \<Rightarrow> Threw m st1
            | Inr c \<Rightarrow>
                if c \<noteq> bid_commitment b
                then Returned (finish (toastOf (ToastError ''Local commitment mismatch'') st1))
                else reveal_submit r (zkKey (selectedLotId st1) addr) s a l st1)"
    by (rule reveal_try_match [OF sd assms(5) assms(7) assms(8) l])
  have can: "isCavosAuth st1 \<or> walletAccount st1 \<noteq> None"
    using account_can_send [OF assms(3)] by (simp add: st1_def)
  have s1: "sent st1 = sent st" by (simp add: st1_def)
  have snt: "sent (handleReveal H r st) =
               (if computeCommitment H s a l addr = Inr (bid_commitment b)
                then sent st @ [revealCall s a l] else sent st)"
    unfolding body tr sent_finish sent_reveal_catch
    using can s1
    by (auto simp: sent_reveal_submit sent_finish toastOf_def split: sum.splits)
  have mis: "handleReveal H r st =
                finish (toastOf (ToastError ''Local commitment mismatch'') (st\<lparr>errorMessage := []\<rparr>))"
    if "computeCommitment H s a l addr = Inr c" "c \<noteq> bid_commitment b" for c
    unfolding body tr using that
    by (simp add: reveal_catch_def finish_def toastOf_def st1_def)
  show ?thesis
    using snt mis by auto
qed

section \<open>Writes of handleFinalizeWithZK\<close>

lemma confirmTx_None:
  "(confirmTx what r = None) =
     (wait_reply r = None \<and> (case receipt_reply r of Inr rc \<Rightarrow> execution_status rc = ''SUCCEEDED'' | Inl m \<Rightarrow> False))"
  by (simp add: confirmTx_def split: option.splits sum.splits)

lemma noSuccessWrites_refl: "noSuccessWrites st st"
  by (simp add: noSuccessWrites_def)

lemma noSuccessWrites_log:
  "noSuccessWrites (toastOf t st) st" "noSuccessWrites (send c st) st"
  "noSuccessWrites (post q st) st" "noSuccessWrites (finish st) st"
  by (simp_all add: noSuccessWrites_def toastOf_def send_def post_def finish_def)

lemma noSuccessWrites_trans:
  "noSuccessWrites a b \<Longrightarrow> noSuccessWrites b c \<Longrightarrow> noSuccessWrites a c"
  by (simp add: noSuccessWrites_def)

lemma finalize_submit_failed:
  assumes "\<not> txSucceeded r"
  shows "noSuccessWrites (pageOf (finalize_submit r cd cur st)) st"
proof -
  have "\<not> (\<exists>h. execute_reply r = Inr h \<and> confirmTx ''finalize_with_zk failed: '' r = None)"
    using assms by (auto simp: txSucceeded_def confirmTx_None)
  then show ?thesis
    by (auto simp: finalize_submit_def Let_def executeDirect_def noSuccessWrites_def toastOf_def send_def
             split: sum.splits option.splits)
qed

lemma finalize_try_failed:
  assumes "\<not> proofObtained r \<or> \<not> txSucceeded r"
  shows "noSuccessWrites (pageOf (finalize_try r cur st)) st"
proof (cases "readBids (storedData st (''bids_'' @ selectedLotId st))")
  case (Inl m)
  then show ?thesis by (simp add: finalize_try_def noSuccessWrites_refl)
next
  case (Inr allBids)
  show ?thesis
  proof (cases "backend_reply r")
    case (Calldata cd)
    then have "\<not> txSucceeded r" using assms by (simp add: proofObtained_def)
    from finalize_submit_failed [OF this]
    have "noSuccessWrites (pageOf (finalize_submit r cd cur
            (toastOf ToastDismiss (post (Post ''/api/zk-proof'' allBids)
               (toastOf (ToastLoading ''Generating ZK proof via backend...'') st))))) st"
      by (simp add: noSuccessWrites_def toastOf_def post_def)
    then show ?thesis
      using Inr Calldata
      by (simp add: finalize_try_def Let_def noSuccessWrites_def toastOf_def finish_def)
  next
    case (FetchFailed m)
    then show ?thesis using Inr
      by (simp add: finalize_try_def Let_def noSuccessWrites_def toastOf_def finish_def post_def)
  next
    case (NotOk s t)
    then show ?thesis using Inr
      by (simp add: finalize_try_def Let_def noSuccessWrites_def toastOf_def finish_def post_def)
  qed
qed

lemma finalize_catch_keeps: "noSuccessWrites (finalize_catch out) (pageOf out)"
  by (cases out) (simp_all add: finalize_catch_def noSuccessWrites_def toastOf_def)

lemma handleFinalizeWithZK_failed:
  assumes "\<not> proofObtained r \<or> \<not> txSucceeded r"
  shows "noSuccessWrites (handleFinalizeWithZK r st) st"
proof (cases "selectedLotInfo st")
  case None
  then show ?thesis by (simp add: handleFinalizeWithZK_def noSuccessWrites_refl)
next
  case (Some cur)
  define st1 where "st1 = st\<lparr>isLoading := True\<rparr>"
  have a: "noSuccessWrites st1 st" by (simp add: st1_def noSuccessWrites_def)
  have b: "noSuccessWrites (pageOf (finalize_try r cur st1)) st1"
    by (rule finalize_try_failed [OF assms])
  have "noSuccessWrites (finish (finalize_catch (finalize_try r cur st1))) st"
    using a b finalize_catch_keeps [of "finalize_try r cur st1"]
    by (simp add: noSuccessWrites_def finish_def)
  then show ?thesis
    using Some
    by (simp add: handleFinalizeWithZK_def noSuccessWrites_refl noSuccessWrites_log st1_def)
qed

section \<open>Values of the concrete scenario\<close>

lemma sample_norm:
  "normalizeAddress ''0x000000000000000000000000000000000000000000000000000000000000001f'' = ''0x1f''"
  "normalizeAddress ''0x2a'' = ''0x2a''"
  by (simp_all add: normalizeAddress_def)

lemma sample_hex: "toLowerCase (toHexAddress ''0x1f'')
    = ''0x000000000000000000000000000000000000000000000000000000000000001f''"
  by code_simp

lemma sample_key: "zkKey ''1'' ''0x1f'' = sampleKey"
  unfolding zkKey_def sample_hex sampleKey_def by simp

lemma sample_numbers: "BigInt ''7'' = Some 7" "BigInt ''50'' = Some 50" "BigInt ''1'' = Some 1"
  by code_simp+

lemma sample_commitment: "computeCommitment sum_list 7 50 1 ''0x1f'' = Inr ''89''"
  by code_simp

section \<open>Address comparison\<close>

text \<open>
  C10. \<open>normalizeAddress\<close> is idempotent on every string. For every address spelled
  \<open>0x\<close> followed by lower-case hexadecimal digits, normalising the padded form
  \<open>toHexAddress b\<close> gives the same result as normalising \<open>b\<close> itself, and padding the
  padded form changes nothing: the comparator of the winner checks
  (\<open>normalizeAddress\<close>) and the comparator of the owner check
  (\<open>toHexAddress\<close>, lower-cased) both identify the padded and the unpadded spelling.
\<close>

theorem normalizeAddress_idempotent_padded:
  "normalizeAddress (normalizeAddress a) = normalizeAddress a
   \<and> (isLowerHexAddress b \<longrightarrow>
        normalizeAddress (toHexAddress b) = normalizeAddress b
        \<and> toLowerCase (toHexAddress (toHexAddress b)) = toLowerCase (toHexAddress b))"
  by (simp add: normalizeAddress_idem normalizeAddress_toHexAddress toHexAddress_idem)

theorem normalizeAddress_idempotent_padded_witness:
  "isLowerHexAddress ''0x00ab''
   \<and> normalizeAddress (toHexAddress ''0x00ab'') = normalizeAddress ''0x00ab''
   \<and> normalizeAddress ''0x00ab'' = ''0xab''
   \<and> toHexAddress ''0x00ab'' = ''0x00000000000000000000000000000000000000000000000000000000000000ab''"
proof -
  have h: "isLowerHexAddress ''0x00ab''"
    by (simp add: isLowerHexAddress_def isLowerHexDigit_def)
  have n: "normalizeAddress ''0x00ab'' = ''0xab''"
    by (simp add: normalizeAddress_def)
  have t: "toHexAddress ''0x00ab'' = ''0x00000000000000000000000000000000000000000000000000000000000000ab''"
    by code_simp
  from normalizeAddress_idempotent_padded [of "''0x00ab''" "''0x00ab''"] h
  have "normalizeAddress (toHexAddress ''0x00ab'') = normalizeAddress ''0x00ab''" by blast
  with h n t show ?thesis by (simp only: simp_thms)
qed

section \<open>The binding commitment\<close>

text \<open>
  C1. For every secret \<open>s\<close>, amount \<open>a\<close>, lot id \<open>l\<close> and bidder address \<open>b\<close> that reads
  as the number \<open>w\<close>, \<open>computeCommitment\<close> returns the hash of exactly the four-element
  sequence \<open>[s, a mod 2^128, l mod 2^128, w]\<close>, printed in decimal: the low 128 bits of
  amount and lot id, the full secret and bidder, in this order.
\<close>

theorem computeCommitment_binding:
  "BigInt b = Some w \<Longrightarrow>
   computeCommitment H s a l b = Inr (bigintToString 10 (H [s, a mod 2 ^ 128, l mod 2 ^ 128, w]))"
  by (simp add: computeCommitment_def Let_def splitU256_low)

theorem computeCommitment_binding_witness:
  "BigInt ''0x1f'' = Some 31
   \<and> computeCommitment sum_list 7 (2 ^ 128 + 50) 1 ''0x1f'' = Inr ''89''"
proof -
  have h: "BigInt ''0x1f'' = Some 31" by code_simp
  have v: "bigintToString 10 (sum_list [7, (2 ^ 128 + 50) mod 2 ^ 128, 1 mod 2 ^ 128, 31]) = ''89''"
    by code_simp
  from computeCommitment_binding [OF h, of sum_list 7 "2 ^ 128 + 50" 1] v h
  show ?thesis by (simp only: simp_thms)
qed

section \<open>The bidding window\<close>

text \<open>
  C3. For every lot and every current time, the lot is active exactly when it is not
  finalized and the time is before \<open>start_time + duration\<close>; the time-remaining text is
  \<open>Ended\<close> exactly when the time has reached \<open>start_time + duration\<close>.
\<close>

theorem auction_clock:
  "isAuctionActive now (Some l) = (\<not> finalizado l \<and> now < start_time l + duration l)
   \<and> (getTimeRemaining now (Some l) = ''Ended'') = (start_time l + duration l \<le> now)"
proof -
  have "\<And>x. x @ ''s'' \<noteq> ''Ended''"
  proof
    fix x :: string assume "x @ ''s'' = ''Ended''"
    then have "last (x @ ''s'') = last ''Ended''" by (simp only:)
    then show False by simp
  qed
  then have "\<And>x y z. x @ ''h '' @ y @ ''m '' @ z @ ''s'' \<noteq> ''Ended''"
    by (metis append_assoc)
  then show ?thesis
    by (auto simp: isAuctionActive_def getTimeRemaining_def Let_def)
qed

section \<open>The preview commitment\<close>

text \<open>
  The preview never shows a hash: whatever amount and secret are typed in, the call of
  \<open>splitU256\<close> inside the memo throws before the hash is reached, and the memo returns the
  empty string.
\<close>

lemma calculatedCommitment_empty: "calculatedCommitment H st = []"
  by (simp add: calculatedCommitment_def splitU256_in_render_def split: option.splits)

text \<open>
  C4. The preview is meant to be the hash of \<open>[a mod 2^128, a div 2^128, n]\<close> for the amount
  \<open>a\<close> and the secret \<open>n\<close>. On the page of the scenario the amount 50 and the secret 7 are
  filled in and read as numbers, nothing is committed yet, and the hash of \<open>[50, 0, 7]\<close>
  would print as 57; the memo yields the empty string instead.
\<close>

theorem preview_not_computed:
  "amount samplePage = ''50'' \<and> nonce samplePage = ''7'' \<and> committed samplePage = False
   \<and> BigInt ''50'' = Some 50 \<and> BigInt ''7'' = Some 7
   \<and> bigintToString 10 (sum_list [50 mod 2 ^ 128, 50 div 2 ^ 128, 7]) = ''57''
   \<and> calculatedCommitment sum_list samplePage = []"
proof -
  have a: "amount samplePage = ''50'' \<and> nonce samplePage = ''7'' \<and> committed samplePage = False"
    by (simp add: samplePage_def)
  have b: "BigInt ''50'' = Some 50 \<and> BigInt ''7'' = Some 7"
    by (simp add: sample_numbers)
  have c: "bigintToString 10 (sum_list [50 mod 2 ^ 128, 50 div 2 ^ 128, 7]) = ''57''"
    by code_simp
  from a b c calculatedCommitment_empty [of sum_list samplePage] show ?thesis by blast
qed

section \<open>The owner gate\<close>

text \<open>
  C5. \<open>isOwner\<close> is set to true exactly when the lower-cased padded address of the
  connected account equals the lower-cased padded owner address. When \<open>isOwner\<close> is false,
  \<open>handleCreateLot\<close> and \<open>handleFinalizeWithZK\<close> send no call and post no proof request;
  they stop with the only-the-owner message provided their opening presence check passed
  (a contract and an account for the first; a contract, an account address, a lot id and
  the lot's data for the second), and return silently otherwise. When \<open>isOwner\<close> is
  true and the presence check passes, both handlers go on to their \<open>try\<close> block (the
  second one for a lot that is not yet finalized).
\<close>

theorem owner_gate:
  "isOwner (ownerEffect env st) =
     (toLowerCase (toHexAddressOpt (activeAccountAddress st)) = toLowerCase (toHexAddress (ownerAddress env)))
   \<and> (\<not> isOwner st \<longrightarrow>
        handleCreateLot r st =
           (if contractRef st \<noteq> None \<and> activeAccount st
            then st\<lparr>errorMessage := ''Only the owner can create lots''\<rparr>
            else st\<lparr>errorMessage := []\<rparr>)
        \<and> handleFinalizeWithZK r st =
           (if connected st \<and> selectedLotInfo st \<noteq> None
            then toastOf (ToastError ''Only the owner can finalize with ZK'') st
            else st)
        \<and> sent (handleCreateLot r st) = sent st
        \<and> sent (handleFinalizeWithZK r st) = sent st
        \<and> requests (handleFinalizeWithZK r st) = requests st)
   \<and> (isOwner st \<and> contractRef st \<noteq> None \<and> activeAccount st \<longrightarrow>
        handleCreateLot r st =
          finish (createLot_catch (createLot_try r (st\<lparr>errorMessage := [], isLoading := True\<rparr>))))
   \<and> (isOwner st \<and> connected st \<and> selectedLotInfo st = Some cur \<and> \<not> finalizado cur \<longrightarrow>
        handleFinalizeWithZK r st =
          finish (finalize_catch (finalize_try r cur (st\<lparr>isLoading := True\<rparr>))))"
proof -
  have 1: "isOwner (ownerEffect env st) =
     (toLowerCase (toHexAddressOpt (activeAccountAddress st)) = toLowerCase (toHexAddress (ownerAddress env)))"
    by (simp add: ownerEffect_def ownerCheck_iff)
  have 2: "\<not> isOwner st \<longrightarrow>
        handleCreateLot r st =
           (if contractRef st \<noteq> None \<and> activeAccount st
            then st\<lparr>errorMessage := ''Only the owner can create lots''\<rparr>
            else st\<lparr>errorMessage := []\<rparr>)
        \<and> handleFinalizeWithZK r st =
           (if connected st \<and> selectedLotInfo st \<noteq> None
            then toastOf (ToastError ''Only the owner can finalize with ZK'') st
            else st)
        \<and> sent (handleCreateLot r st) = sent st
        \<and> sent (handleFinalizeWithZK r st) = sent st
        \<and> requests (handleFinalizeWithZK r st) = requests st"
  proof
    assume n: "\<not> isOwner st"
    have a: "sent (handleCreateLot r st) = sent st"
      unfolding handleCreateLot_not_owner [OF n] by simp
    have b: "sent (handleFinalizeWithZK r st) = sent st \<and> requests (handleFinalizeWithZK r st) = requests st"
      unfolding handleFinalizeWithZK_not_owner [OF n] by (simp add: toastOf_def)
    from handleCreateLot_not_owner [OF n, of r] handleFinalizeWithZK_not_owner [OF n, of r] a b
    show "handleCreateLot r st =
           (if contractRef st \<noteq> None \<and> activeAccount st
            then st\<lparr>errorMessage := ''Only the owner can create lots''\<rparr>
            else st\<lparr>errorMessage := []\<rparr>)
        \<and> handleFinalizeWithZK r st =
           (if connected st \<and> selectedLotInfo st \<noteq> None
            then toastOf (ToastError ''Only the owner can finalize with ZK'') st
            else st)
        \<and> sent (handleCreateLot r st) = sent st
        \<and> sent (handleFinalizeWithZK r st) = sent st
        \<and> requests (handleFinalizeWithZK r st) = requests st"
      by blast
  qed
  have 3: "isOwner st \<and> contractRef st \<noteq> None \<and> activeAccount st \<longrightarrow>
        handleCreateLot r st =
          finish (createLot_catch (createLot_try r (st\<lparr>errorMessage := [], isLoading := True\<rparr>)))"
    using handleCreateLot_owner [of st r] by (intro impI) (elim conjE)
  have 4: "isOwner st \<and> connected st \<and> selectedLotInfo st = Some cur \<and> \<not> finalizado cur \<longrightarrow>
        handleFinalizeWithZK r st =
          finish (finalize_catch (finalize_try r cur (st\<lparr>isLoading := True\<rparr>)))"
    using handleFinalizeWithZK_owner [of st cur r] by (intro impI) (elim conjE)
  from 1 2 3 4 show ?thesis by (intro conjI)
qed

theorem owner_gate_witness:
  "\<not> isOwner samplePage
   \<and> handleCreateLot sampleReplies samplePage = samplePage\<lparr>errorMessage := ''Only the owner can create lots''\<rparr>
   \<and> handleFinalizeWithZK sampleReplies samplePage
       = toastOf (ToastError ''Only the owner can finalize with ZK'') samplePage
   \<and> isOwner ownerPage
   \<and> map entrypoint (sent (handleCreateLot sampleReplies ownerPage)) = [''create_lot'']"
proof -
  have a: "\<not> isOwner samplePage" by (simp add: samplePage_def)
  have b: "contractRef samplePage \<noteq> None \<and> activeAccount samplePage"
    by (simp add: samplePage_def activeAccount_def)
  have c: "connected samplePage \<and> selectedLotInfo samplePage \<noteq> None"
    by (simp add: samplePage_def connected_def truthy_def activeAccountAddress_def)
  note t = owner_gate [where st = samplePage and r = sampleReplies, THEN conjunct2, THEN conjunct1,
      rule_format, OF a]
  from t [THEN conjunct1] b
  have d: "handleCreateLot sampleReplies samplePage = samplePage\<lparr>errorMessage := ''Only the owner can create lots''\<rparr>"
    by simp
  from t [THEN conjunct2, THEN conjunct1] c
  have e: "handleFinalizeWithZK sampleReplies samplePage
       = toastOf (ToastError ''Only the owner can finalize with ZK'') samplePage"
    by simp
  have f: "isOwner ownerPage \<and> contractRef ownerPage \<noteq> None \<and> activeAccount ownerPage"
    by (simp add: ownerPage_def committedPage_def samplePage_def activeAccount_def)
  have n: "BigInt ''2'' = Some 2" "BigInt ''400'' = Some 400" "BigInt ''10'' = Some 10"
      "BigInt ''360000'' = Some 360000"
    by (simp_all add: BigInt_def trim_def isWhiteSpace_def signedDecimal_def parseDigits_def digitVal_def)
  have p: "nextLotId ownerPage = ''2''" "newPeso ownerPage = ''400''" "newCantidad ownerPage = ''10''"
      "newDuration ownerPage = ''360000''" "isCavosAuth ownerPage = False"
      "walletAccount ownerPage = Some ''0x1f''" "sent ownerPage = []"
    by (simp_all add: ownerPage_def committedPage_def samplePage_def)
  have q: "execute_reply sampleReplies = Inr ''0xabc''" "wait_reply sampleReplies = None"
    by (simp_all add: sampleReplies_def)
  obtain cl where cl: "createLotCall (ownerPage\<lparr>errorMessage := [], isLoading := True\<rparr>) = Some cl"
      "entrypoint cl = ''create_lot''"
    by (simp add: createLotCall_def Let_def p n)
  from owner_gate [where st = ownerPage and r = sampleReplies, THEN conjunct2, THEN conjunct2,
      THEN conjunct1, rule_format, OF f]
  have "handleCreateLot sampleReplies ownerPage =
          finish (createLot_catch (createLot_try sampleReplies (ownerPage\<lparr>errorMessage := [], isLoading := True\<rparr>)))" .
  then have g: "map entrypoint (sent (handleCreateLot sampleReplies ownerPage)) = [''create_lot'']"
    by (simp add: createLot_try_def cl executeTransaction_def p q createLot_catch_def finish_def
          sent_fetchAllLots toastOf_def send_def)
  from a d e f g show ?thesis by blast
qed

text \<open>
  Without the presence condition the unauthorized message is not guaranteed: when the
  contract object is missing, both handlers return before the owner check, without any
  message, also for an account that is not the owner.
\<close>

theorem owner_gate_silent_without_contract:
  "\<not> isOwner noContractPage \<and> activeAccountAddress noContractPage = Some ''0x1f''
   \<and> errorMessage (handleCreateLot sampleReplies noContractPage) \<noteq> ''Only the owner can create lots''
   \<and> toasts (handleFinalizeWithZK sampleReplies noContractPage) = []"
  by (simp add: noContractPage_def samplePage_def handleCreateLot_def handleFinalizeWithZK_def
        activeAccount_def activeAccountAddress_def truthy_def Let_def)

section \<open>The winner gate of the payment step\<close>

text \<open>
  C6. \<open>handleZKProof\<close> posts no proof request and sends no call unless an account is
  connected, the selected lot is finalized and the account's normalised address equals the
  normalised best bidder. For a finalized lot and an account different from the best
  bidder it stops with the only-the-winner message; without an account, a selected lot or
  finalization it returns silently.
\<close>

theorem winner_gate:
  "(\<not> finalizedSelection st \<longrightarrow> handleZKProof r st = st)
   \<and> (finalizedSelection st \<and> \<not> winnerGate st \<longrightarrow>
        handleZKProof r st = toastOf (ToastError ''Only the winner can generate the ZK proof'') st)
   \<and> (\<not> winnerGate st \<longrightarrow>
        requests (handleZKProof r st) = requests st \<and> sent (handleZKProof r st) = sent st)"
proof -
  have "requests (handleZKProof r st) = requests st \<and> sent (handleZKProof r st) = sent st"
    if "\<not> winnerGate st"
  proof (cases "finalizedSelection st")
    case True
    show ?thesis unfolding handleZKProof_not_winner [OF True that] by (simp add: toastOf_def)
  next
    case False
    show ?thesis unfolding handleZKProof_silent [OF False] by simp
  qed
  then show ?thesis
    using handleZKProof_silent [of st r] handleZKProof_not_winner [of st r] by blast
qed

theorem winner_gate_witness:
  "finalizedSelection otherFinalizedPage \<and> \<not> winnerGate otherFinalizedPage
   \<and> handleZKProof sampleReplies otherFinalizedPage
       = toastOf (ToastError ''Only the winner can generate the ZK proof'') otherFinalizedPage
   \<and> requests (handleZKProof sampleReplies otherFinalizedPage) = []"
proof -
  have a: "finalizedSelection otherFinalizedPage"
    by (simp add: finalizedSelection_def otherFinalizedPage_def otherPage_def samplePage_def
          finalizedLot_def sampleLot_def activeAccountAddress_def)
  have b: "\<not> winnerGate otherFinalizedPage"
    by (simp add: winnerGate_def otherFinalizedPage_def otherPage_def samplePage_def
          finalizedLot_def sampleLot_def activeAccountAddress_def sample_norm)
  have c: "requests otherFinalizedPage = []"
    by (simp add: otherFinalizedPage_def otherPage_def samplePage_def)
  note t = winner_gate [where st = otherFinalizedPage and r = sampleReplies]
  from t a b have d: "handleZKProof sampleReplies otherFinalizedPage
       = toastOf (ToastError ''Only the winner can generate the ZK proof'') otherFinalizedPage"
    by blast
  from t b c have e: "requests (handleZKProof sampleReplies otherFinalizedPage) = []"
    by simp
  from a b d e show ?thesis by blast
qed

text \<open>
  Before finalization an account different from the best bidder gets no only-the-winner
  message: the handler returns at its first check.
\<close>

theorem winner_gate_silent_before_finalization:
  "activeAccountAddress otherPage = Some ''0x2a''
   \<and> selectedLotInfo otherPage = Some sampleLot
   \<and> normalizeAddress (mejor_postor sampleLot) \<noteq> normalizeAddress ''0x2a''
   \<and> handleZKProof sampleReplies otherPage = otherPage
   \<and> toasts (handleZKProof sampleReplies otherPage) = []"
  by (simp add: otherPage_def samplePage_def sampleLot_def activeAccountAddress_def
        handleZKProof_def sample_norm)

section \<open>Proof-gated finalization\<close>

text \<open>
  C7. When the proof backend does not deliver calldata, or the finalize transaction is not
  accepted, not confirmed or its receipt does not report success, \<open>handleFinalizeWithZK\<close>
  performs none of the writes of its success path: the ZK-finalized marks, \<open>localStorage\<close>
  (so no finalize transaction record), the selected lot and the lot list stay as they were.
  Conversely, a change of the marks or of \<open>localStorage\<close> implies that the proof was
  obtained and the receipt reported success.
\<close>

theorem finalize_all_or_nothing:
  "(\<not> proofObtained r \<or> \<not> txSucceeded r \<longrightarrow>
      zkFinalizedLotes (handleFinalizeWithZK r st) = zkFinalizedLotes st
      \<and> localStorage (handleFinalizeWithZK r st) = localStorage st
      \<and> selectedLotInfo (handleFinalizeWithZK r st) = selectedLotInfo st
      \<and> lots (handleFinalizeWithZK r st) = lots st)
   \<and> (zkFinalizedLotes (handleFinalizeWithZK r st) \<noteq> zkFinalizedLotes st
        \<or> localStorage (handleFinalizeWithZK r st) \<noteq> localStorage st \<longrightarrow>
        proofObtained r \<and> txSucceeded r)"
  using handleFinalizeWithZK_failed [of r st]
  unfolding noSuccessWrites_def by blast

theorem finalize_all_or_nothing_witness:
  "\<not> proofObtained backendDown
   \<and> zkFinalizedLotes (handleFinalizeWithZK backendDown ownerPage) = zkFinalizedLotes ownerPage
   \<and> localStorage (handleFinalizeWithZK backendDown ownerPage) = localStorage ownerPage
   \<and> toasts (handleFinalizeWithZK backendDown ownerPage)
       = [ToastLoading ''Generating ZK proof via backend...'', ToastDismiss,
          ToastError ''Failed: Backend error (500): down'']"
proof -
  have a: "\<not> proofObtained backendDown"
    by (simp add: proofObtained_def backendDown_def)
  from finalize_all_or_nothing [where r = backendDown and st = ownerPage, THEN conjunct1] a
  have b: "zkFinalizedLotes (handleFinalizeWithZK backendDown ownerPage) = zkFinalizedLotes ownerPage
       \<and> localStorage (handleFinalizeWithZK backendDown ownerPage) = localStorage ownerPage"
    by blast
  have c: "toasts (handleFinalizeWithZK backendDown ownerPage)
       = [ToastLoading ''Generating ZK proof via backend...'', ToastDismiss,
          ToastError ''Failed: Backend error (500): down'']"
    by (simp add: handleFinalizeWithZK_def ownerPage_def committedPage_def samplePage_def sampleLot_def
          backendDown_def sampleReplies_def truthy_def activeAccountAddress_def finalize_try_def
          finalize_catch_def finish_def storedData_def readBids_def toastOf_def post_def Let_def)
  from a b c show ?thesis by blast
qed

text \<open>
  The success path does write: with every reply positive the owner's run marks lot 1 and
  stores the transaction hash.
\<close>

lemma finalize_success_run:
  "proofObtained sampleReplies \<and> txSucceeded sampleReplies
   \<and> zkFinalizedLotes (handleFinalizeWithZK sampleReplies ownerPage) ''1'' = Some True
   \<and> localStorage (handleFinalizeWithZK sampleReplies ownerPage) ''finalize_tx_1'' = Some (Text ''0xabc'')
   \<and> map entrypoint (sent (handleFinalizeWithZK sampleReplies ownerPage)) = [''finalize_with_zk'']"
  by (simp add: handleFinalizeWithZK_def ownerPage_def committedPage_def samplePage_def sampleLot_def
        sampleReplies_def truthy_def activeAccountAddress_def finalize_try_def finalize_submit_def
        finalize_success_def executeDirect_def confirmTx_def fetchAllLots_def setItem_def send_def
        finalize_catch_def finish_def storedData_def readBids_def toastOf_def post_def Let_def
        proofObtained_def txSucceeded_def)

section \<open>The not-active guard of the commit step\<close>

text \<open>
  C8. For every selected lot that is finalized or whose window has closed,
  \<open>handleCommit\<close> returns before computing a commitment, before any write to
  \<open>localStorage\<close> and before sending any call: at its not-active guard, with the message
  that the auction is not active, when a contract, an account address and a lot id are
  present, and silently at the presence check before it otherwise.
\<close>

theorem handleCommit_not_active:
  assumes "selectedLotInfo st = Some l"
      and "finalizado l \<or> start_time l + duration l \<le> currentTime st"
  shows "handleCommit H r st =
           (if connected st then toastOf (ToastError ''Auction is not active'') (st\<lparr>errorMessage := []\<rparr>)
            else st\<lparr>errorMessage := []\<rparr>)
         \<and> localStorage (handleCommit H r st) = localStorage st
         \<and> sent (handleCommit H r st) = sent st
         \<and> commitment (handleCommit H r st) = commitment st
         \<and> committed (handleCommit H r st) = committed st"
proof -
  have na: "\<not> isAuctionActive (currentTime st) (selectedLotInfo st)"
    using assms by (auto simp: not_active_iff)
  have 1: "handleCommit H r st =
           (if connected st then toastOf (ToastError ''Auction is not active'') (st\<lparr>errorMessage := []\<rparr>)
            else st\<lparr>errorMessage := []\<rparr>)"
    using na
    by (auto simp: handleCommit_def connected_def truthy_def activeAccountAddress_def Let_def
             split: option.splits)
  show ?thesis
    unfolding 1 by (simp add: toastOf_def)
qed

theorem handleCommit_not_active_witness:
  "selectedLotInfo closedPage = Some sampleLot
   \<and> start_time sampleLot + duration sampleLot \<le> currentTime closedPage
   \<and> connected closedPage
   \<and> handleCommit sum_list sampleReplies closedPage
       = toastOf (ToastError ''Auction is not active'') (closedPage\<lparr>errorMessage := []\<rparr>)
   \<and> sent (handleCommit sum_list sampleReplies closedPage) = []"
proof -
  have a: "selectedLotInfo closedPage = Some sampleLot"
    by (simp add: closedPage_def samplePage_def)
  have b: "start_time sampleLot + duration sampleLot \<le> currentTime closedPage"
    by (simp add: closedPage_def samplePage_def sampleLot_def)
  have c: "connected closedPage"
    by (simp add: connected_def closedPage_def samplePage_def truthy_def activeAccountAddress_def)
  have d: "sent closedPage = []"
    by (simp add: closedPage_def samplePage_def)
  note t = handleCommit_not_active [OF a disjI2 [OF b], of sum_list sampleReplies]
  from t [THEN conjunct1] c have e: "handleCommit sum_list sampleReplies closedPage
       = toastOf (ToastError ''Auction is not active'') (closedPage\<lparr>errorMessage := []\<rparr>)"
    by (simp only: if_True)
  from t [THEN conjunct2, THEN conjunct2, THEN conjunct1] d
  have f: "sent (handleCommit sum_list sampleReplies closedPage) = []"
    by (simp only:)
  from a b c e f show ?thesis by blast
qed

text \<open>
  Without a contract the handler does not reach the not-active guard: the run on the closed
  lot ends without the not-active message.
\<close>

theorem handleCommit_presence_guard_first:
  "selectedLotInfo closedNoContractPage = Some sampleLot
   \<and> start_time sampleLot + duration sampleLot \<le> currentTime closedNoContractPage
   \<and> handleCommit sum_list sampleReplies closedNoContractPage
       \<noteq> toastOf (ToastError ''Auction is not active'') (closedNoContractPage\<lparr>errorMessage := []\<rparr>)
   \<and> toasts (handleCommit sum_list sampleReplies closedNoContractPage) = []"
proof -
  have t: "toasts (handleCommit sum_list sampleReplies closedNoContractPage) = []"
    by (simp add: handleCommit_def closedNoContractPage_def closedPage_def samplePage_def
          activeAccountAddress_def Let_def)
  moreover have "toasts (toastOf (ToastError ''Auction is not active'')
                   (closedNoContractPage\<lparr>errorMessage := []\<rparr>)) \<noteq> []"
    by (simp add: toastOf_def)
  ultimately have "handleCommit sum_list sampleReplies closedNoContractPage
       \<noteq> toastOf (ToastError ''Auction is not active'') (closedNoContractPage\<lparr>errorMessage := []\<rparr>)"
    by metis
  with t show ?thesis
    by (simp add: closedNoContractPage_def closedPage_def samplePage_def sampleLot_def)
qed

section \<open>The commitment check of the reveal step\<close>

text \<open>
  C2. While a contract, an account and a lot id are present and the auction of the selected
  lot is active, for every bid record stored for the account and the lot, with secret,
  amount and lot id that read as numbers, \<open>handleReveal\<close> sends the reveal call exactly when
  the recomputed commitment of (secret, amount, lot id, account) equals the stored
  commitment; when they differ it stops with the local-commitment-mismatch message and
  sends nothing. When the presence check fails or the auction is not active it sends
  nothing, whatever is stored.
\<close>

theorem reveal_gate:
  "(\<not> connected st \<or> \<not> isAuctionActive (currentTime st) (selectedLotInfo st) \<longrightarrow>
      sent (handleReveal H r st) = sent st)
   \<and> (connected st \<and> isAuctionActive (currentTime st) (selectedLotInfo st)
       \<and> activeAccountAddress st = Some addr
       \<and> storedData st (zkKey (selectedLotId st) addr) = Some (JBid b)
       \<and> toLowerCase (bid_winner b) = toLowerCase (toHexAddress addr)
       \<and> bid_lot_id b = selectedLotId st
       \<and> BigInt (bid_secret b) = Some s \<and> BigInt (bid_amount b) = Some a
       \<and> BigInt (bid_lot_id b) = Some l \<longrightarrow>
        (sent (handleReveal H r st) = sent st @ [revealCall s a l])
           = (computeCommitment H s a l addr = Inr (bid_commitment b))
        \<and> (computeCommitment H s a l addr \<noteq> Inr (bid_commitment b) \<longrightarrow>
             sent (handleReveal H r st) = sent st)
        \<and> (\<forall>c. computeCommitment H s a l addr = Inr c \<and> c \<noteq> bid_commitment b \<longrightarrow>
             handleReveal H r st =
               finish (toastOf (ToastError ''Local commitment mismatch'') (st\<lparr>errorMessage := []\<rparr>))))"
proof -
  have refused: "\<not> connected st \<or> \<not> isAuctionActive (currentTime st) (selectedLotInfo st) \<longrightarrow>
      sent (handleReveal H r st) = sent st"
    using handleReveal_refused by blast
  have checked: "connected st \<and> isAuctionActive (currentTime st) (selectedLotInfo st)
       \<and> activeAccountAddress st = Some addr
       \<and> storedData st (zkKey (selectedLotId st) addr) = Some (JBid b)
       \<and> toLowerCase (bid_winner b) = toLowerCase (toHexAddress addr)
       \<and> bid_lot_id b = selectedLotId st
       \<and> BigInt (bid_secret b) = Some s \<and> BigInt (bid_amount b) = Some a
       \<and> BigInt (bid_lot_id b) = Some l \<longrightarrow>
        (sent (handleReveal H r st) = sent st @ [revealCall s a l])
           = (computeCommitment H s a l addr = Inr (bid_commitment b))
        \<and> (computeCommitment H s a l addr \<noteq> Inr (bid_commitment b) \<longrightarrow>
             sent (handleReveal H r st) = sent st)
        \<and> (\<forall>c. computeCommitment H s a l addr = Inr c \<and> c \<noteq> bid_commitment b \<longrightarrow>
             handleReveal H r st =
               finish (toastOf (ToastError ''Local commitment mismatch'') (st\<lparr>errorMessage := []\<rparr>)))"
  proof
    assume h: "connected st \<and> isAuctionActive (currentTime st) (selectedLotInfo st)
       \<and> activeAccountAddress st = Some addr
       \<and> storedData st (zkKey (selectedLotId st) addr) = Some (JBid b)
       \<and> toLowerCase (bid_winner b) = toLowerCase (toHexAddress addr)
       \<and> bid_lot_id b = selectedLotId st
       \<and> BigInt (bid_secret b) = Some s \<and> BigInt (bid_amount b) = Some a
       \<and> BigInt (bid_lot_id b) = Some l"
    then show "(sent (handleReveal H r st) = sent st @ [revealCall s a l])
           = (computeCommitment H s a l addr = Inr (bid_commitment b))
        \<and> (computeCommitment H s a l addr \<noteq> Inr (bid_commitment b) \<longrightarrow>
             sent (handleReveal H r st) = sent st)
        \<and> (\<forall>c. computeCommitment H s a l addr = Inr c \<and> c \<noteq> bid_commitment b \<longrightarrow>
             handleReveal H r st =
               finish (toastOf (ToastError ''Local commitment mismatch'') (st\<lparr>errorMessage := []\<rparr>)))"
      by (elim conjE) (rule reveal_gate_active; assumption)
  qed
  from refused checked show ?thesis by (rule conjI)
qed

theorem reveal_gate_witness:
  "connected committedPage
   \<and> isAuctionActive (currentTime committedPage) (selectedLotInfo committedPage)
   \<and> storedData committedPage (zkKey (selectedLotId committedPage) ''0x1f'') = Some (JBid sampleBid)
   \<and> computeCommitment sum_list 7 50 1 ''0x1f'' = Inr (bid_commitment sampleBid)
   \<and> sent (handleReveal sum_list sampleReplies committedPage) = [revealCall 7 50 1]"
proof -
  have a: "connected committedPage"
    by (simp add: connected_def committedPage_def samplePage_def truthy_def activeAccountAddress_def)
  have b: "isAuctionActive (currentTime committedPage) (selectedLotInfo committedPage)"
    by (simp add: isAuctionActive_def committedPage_def samplePage_def sampleLot_def)
  have c: "activeAccountAddress committedPage = Some ''0x1f''"
    by (simp add: committedPage_def samplePage_def activeAccountAddress_def)
  have i: "selectedLotId committedPage = ''1''"
    by (simp add: committedPage_def samplePage_def)
  have d: "storedData committedPage (zkKey (selectedLotId committedPage) ''0x1f'') = Some (JBid sampleBid)"
    unfolding i sample_key by (simp add: storedData_def committedPage_def samplePage_def sampleKey_def)
  have e: "toLowerCase (bid_winner sampleBid) = toLowerCase (toHexAddress ''0x1f'')"
    unfolding sample_hex by (simp add: sampleBid_def toLowerCase_def toLowerChar_def)
  have f: "bid_lot_id sampleBid = selectedLotId committedPage"
    by (simp add: i sampleBid_def)
  have g: "BigInt (bid_secret sampleBid) = Some 7" "BigInt (bid_amount sampleBid) = Some 50"
      "BigInt (bid_lot_id sampleBid) = Some 1"
    by (simp_all add: sampleBid_def sample_numbers)
  have h: "computeCommitment sum_list 7 50 1 ''0x1f'' = Inr (bid_commitment sampleBid)"
    by (simp add: sample_commitment sampleBid_def)
  have s: "sent committedPage = []"
    by (simp add: committedPage_def samplePage_def)
  note t = reveal_gate [where H = sum_list and r = sampleReplies and st = committedPage
      and addr = "''0x1f''" and b = sampleBid and s = 7 and a = 50 and l = 1, THEN conjunct2]
  from t a b c d e f g
  have "(sent (handleReveal sum_list sampleReplies committedPage) = sent committedPage @ [revealCall 7 50 1])
          = (computeCommitment sum_list 7 50 1 ''0x1f'' = Inr (bid_commitment sampleBid))"
    by blast
  with h s have "sent (handleReveal sum_list sampleReplies committedPage) = [revealCall 7 50 1]"
    by simp
  with a b d h show ?thesis by blast
qed

text \<open>
  Without the condition on the auction the equivalence fails: after the window has closed
  the stored commitment still matches, and nothing is sent.
\<close>

theorem reveal_refused_after_window:
  "storedData closedCommittedPage (zkKey (selectedLotId closedCommittedPage) ''0x1f'') = Some (JBid sampleBid)
   \<and> activeAccountAddress closedCommittedPage = Some ''0x1f''
   \<and> computeCommitment sum_list 7 50 1 ''0x1f'' = Inr (bid_commitment sampleBid)
   \<and> sent (handleReveal sum_list sampleReplies closedCommittedPage) = []
   \<and> toasts (handleReveal sum_list sampleReplies closedCommittedPage) = [ToastError ''Auction is not active'']"
proof -
  have a: "connected closedCommittedPage"
    by (simp add: connected_def closedCommittedPage_def committedPage_def samplePage_def truthy_def
          activeAccountAddress_def)
  have b: "\<not> isAuctionActive (currentTime closedCommittedPage) (selectedLotInfo closedCommittedPage)"
    by (simp add: isAuctionActive_def closedCommittedPage_def committedPage_def samplePage_def sampleLot_def)
  have c: "activeAccountAddress closedCommittedPage = Some ''0x1f''"
    by (simp add: closedCommittedPage_def committedPage_def samplePage_def activeAccountAddress_def)
  have i: "selectedLotId closedCommittedPage = ''1''"
    by (simp add: closedCommittedPage_def committedPage_def samplePage_def)
  have d: "storedData closedCommittedPage (zkKey (selectedLotId closedCommittedPage) ''0x1f'') = Some (JBid sampleBid)"
    unfolding i sample_key
    by (simp add: storedData_def closedCommittedPage_def committedPage_def samplePage_def sampleKey_def)
  have h: "computeCommitment sum_list 7 50 1 ''0x1f'' = Inr (bid_commitment sampleBid)"
    by (simp add: sample_commitment sampleBid_def)
  have r: "handleReveal sum_list sampleReplies closedCommittedPage
             = toastOf (ToastError ''Auction is not active'') (closedCommittedPage\<lparr>errorMessage := []\<rparr>)"
    by (rule handleReveal_not_active [OF a b])
  have s: "sent (handleReveal sum_list sampleReplies closedCommittedPage) = []"
    "toasts (handleReveal sum_list sampleReplies closedCommittedPage) = [ToastError ''Auction is not active'']"
    unfolding r by (simp_all add: toastOf_def closedCommittedPage_def committedPage_def samplePage_def)
  from c d h s show ?thesis by blast
qed

section \<open>Splitting and recombining\<close>

text \<open>
  C9. \<open>splitU256(v)\<close> returns \<open>low = v mod 2^128\<close> and \<open>high = v div 2^128\<close>; the low part
  is below \<open>2^128\<close> and \<open>low + 2^128 * high\<close> is \<open>v\<close> again. This holds for every
  \<open>bigint\<close>; the non-negative ones are the 256-bit values the page splits.
\<close>

theorem splitU256_roundtrip:
  "low (splitU256 v) = v mod 2 ^ 128 \<and> high (splitU256 v) = v div 2 ^ 128
   \<and> 0 \<le> low (splitU256 v) \<and> low (splitU256 v) < 2 ^ 128
   \<and> low (splitU256 v) + 2 ^ 128 * high (splitU256 v) = v"
  by (simp add: splitU256_low splitU256_high)

end
